theory Spec2Isabelle
  imports Main "HOL-Library.Sublist"
begin

text \<open>
  A model of the feedback pipeline of the worker: the classifier with its rule-based
  stand-in (\<open>inferFeedbackMetadata\<close>, \<open>mockAiInference\<close>), the ingestion handler, the
  statistics of \<open>GET /api/stats\<close>, and the two daily analyses, the workflow
  \<open>DailyAnalysisWorkflow\<close> and the scheduled handler \<open>handleScheduled\<close>.

  Functions of the source are functions here, under their names. What the platform and the
  collaborators decide is an argument of the model: the parsers of \<open>JSON\<close>, \<open>Date\<close> and
  \<open>URL\<close>, \<open>JSON.stringify\<close>, the clock, the answers of the inference binding, of the
  network and of the store. A thrown error is a value of the type \<open>error\<close>, and the calls
  made to the network and to the log are returned as a list of events.
\<close>

section \<open>JavaScript values used by the handlers\<close>

text \<open>
  Strings are lists of characters. A column or field of type \<open>string | null\<close> is a
  \<open>string option\<close>. The expression \<open>x || d\<close> on such a value yields \<open>d\<close> when \<open>x\<close> is
  \<open>null\<close>, \<open>undefined\<close> or the empty string, and \<open>x\<close> otherwise.
\<close>

definition orElse :: "string option \<Rightarrow> string \<Rightarrow> string" where
  "orElse x d = (case x of None \<Rightarrow> d | Some s \<Rightarrow> if s = [] then d else s)"

text \<open>\<open>String.prototype.slice(0, n)\<close> and \<open>substring(0, n)\<close>.\<close>

definition slice0 :: "nat \<Rightarrow> string \<Rightarrow> string" where
  "slice0 n s = take n s"

text \<open>
  \<open>String.prototype.trim\<close> removes white space and line terminators at both ends; among
  the 8-bit characters these are TAB, LF, VT, FF, CR, SPACE and NBSP.
\<close>

definition js_space :: "char \<Rightarrow> bool" where
  "js_space c = (c \<in> set [CHR 0x09, CHR 0x0A, CHR 0x0B, CHR 0x0C, CHR 0x0D, CHR 0x20, CHR 0xA0])"

definition trim :: "string \<Rightarrow> string" where
  "trim s = rev (dropWhile js_space (rev (dropWhile js_space s)))"

text \<open>\<open>toLowerCase\<close> on the ASCII letters; every other character is left as it is.\<close>

definition lowerChar :: "char \<Rightarrow> char" where
  "lowerChar c =
     (let n = (of_char c :: nat)
      in if 65 \<le> n \<and> n \<le> 90 then char_of (n + 32) else c)"

definition toLowerCase :: "string \<Rightarrow> string" where
  "toLowerCase s = map lowerChar s"

text \<open>\<open>s.includes(t)\<close>: \<open>t\<close> occurs in \<open>s\<close> as a contiguous block.\<close>

fun includesStr :: "string \<Rightarrow> string \<Rightarrow> bool" where
  "includesStr [] t = (t = [])"
| "includesStr (c # cs) t = (prefix t (c # cs) \<or> includesStr cs t)"

definition startsWith :: "string \<Rightarrow> string \<Rightarrow> bool" where
  "startsWith s t = prefix t s"

section \<open>Counting objects\<close>

text \<open>
  The three distributions are plain objects created by the literal \<open>{}\<close> and updated by
  \<open>obj[k] = (obj[k] || 0) + 1\<close>. Such an object has its own properties, listed here in
  the order of their creation, and behind them the members of \<open>Object.prototype\<close>. A read
  of a key that is no own property finds the inherited member when the key names one. A
  property holds a number, or a string once \<open>+\<close> has concatenated.
\<close>

datatype cell = Num nat | Text string

type_synonym counter = "(string \<times> cell) list"

datatype lookup = Undefined | Own cell | Inherited string

definition protoFunctions :: "string list" where
  "protoFunctions =
     [''__defineGetter__'', ''__defineSetter__'', ''hasOwnProperty'', ''__lookupGetter__'',
      ''__lookupSetter__'', ''isPrototypeOf'', ''propertyIsEnumerable'', ''toString'',
      ''valueOf'', ''toLocaleString'']"

text \<open>
  The string an inherited member turns into under \<open>+ 1\<close>: the source text of a native
  function, and \<open>[object Object]\<close> for the prototype object itself, which is what the
  accessor \<open>__proto__\<close> returns. The member \<open>constructor\<close> is the function \<open>Object\<close>.
\<close>

definition inheritedText :: "string \<Rightarrow> string option" where
  "inheritedText k =
     (if k = ''__proto__'' then Some ''[object Object]''
      else if k = ''constructor'' then Some ''function Object() { [native code] }''
      else if k \<in> set protoFunctions then Some (''function '' @ k @ ''() { [native code] }'')
      else None)"

definition getProp :: "counter \<Rightarrow> string \<Rightarrow> lookup" where
  "getProp obj k =
     (case map_of obj k of
        Some v \<Rightarrow> Own v
      | None \<Rightarrow> (case inheritedText k of Some t \<Rightarrow> Inherited t | None \<Rightarrow> Undefined))"

text \<open>\<open>(v || 0) + 1\<close>: the number \<open>0\<close> and the empty string are falsy.\<close>

fun plusOne :: "lookup \<Rightarrow> cell" where
  "plusOne Undefined = Num 1"
| "plusOne (Own (Num n)) = Num (n + 1)"
| "plusOne (Own (Text s)) = (if s = [] then Num 1 else Text (s @ ''1''))"
| "plusOne (Inherited t) = Text (t @ ''1'')"

text \<open>
  The assignment \<open>obj[k] = v\<close>. An existing own property keeps its place, a new one goes
  to the end. The key \<open>__proto__\<close> reaches the inherited setter, which ignores a value
  that is neither an object nor \<open>null\<close>: the object is unchanged.
\<close>

fun putOwn :: "counter \<Rightarrow> string \<Rightarrow> cell \<Rightarrow> counter" where
  "putOwn [] k v = [(k, v)]"
| "putOwn ((k', v') # obj) k v =
     (if k' = k then (k, v) # obj else (k', v') # putOwn obj k v)"

definition setProp :: "counter \<Rightarrow> string \<Rightarrow> cell \<Rightarrow> counter" where
  "setProp obj k v = (if k = ''__proto__'' then obj else putOwn obj k v)"

definition bump :: "counter \<Rightarrow> string \<Rightarrow> counter" where
  "bump obj k = setProp obj k (plusOne (getProp obj k))"

text \<open>
  The sum of the values of a distribution, when every value is a number, and \<open>None\<close>
  when some value is a string.
\<close>

fun sumValues :: "counter \<Rightarrow> nat option" where
  "sumValues [] = Some 0"
| "sumValues ((k, Num n) # obj) = map_option (\<lambda>s. n + s) (sumValues obj)"
| "sumValues ((k, Text t) # obj) = None"

text \<open>\<open>obj.k || 0\<close> for a key read by name in the reports.\<close>

definition countOf :: "counter \<Rightarrow> string \<Rightarrow> cell" where
  "countOf obj k =
     (case getProp obj k of
        Undefined \<Rightarrow> Num 0
      | Own (Num n) \<Rightarrow> Num n
      | Own (Text s) \<Rightarrow> (if s = [] then Num 0 else Text s)
      | Inherited t \<Rightarrow> Text t)"

section \<open>Feedback records\<close>

text \<open>A row of the table \<open>feedback\<close>; the field \<open>id\<close> of the source is \<open>id_text\<close> here.\<close>

record FeedbackRecord =
  id_text :: string
  source :: string
  raw_text :: string
  sentiment :: "string option"
  priority :: "string option"
  category :: "string option"
  summary :: "string option"
  priority_reason :: "string option"
  created_at :: string

definition priorityKey :: "FeedbackRecord \<Rightarrow> string" where
  "priorityKey f = orElse (priority f) ''unknown''"

definition sentimentKey :: "FeedbackRecord \<Rightarrow> string" where
  "sentimentKey f = orElse (sentiment f) ''unknown''"

definition categoryKey :: "FeedbackRecord \<Rightarrow> string" where
  "categoryKey f = orElse (category f) ''other''"

section \<open>The statistics endpoint\<close>

subsection \<open>Keyword extraction\<close>

text \<open>
  \<open>text.match(/\b[a-z]{3,}\b/g)\<close>. The class \<open>\w\<close> holds the ASCII letters, the digits
  and the underscore, and \<open>\b\<close> holds between a character of the class and one outside
  it (or an end of the text). A match therefore starts where a maximal block of class
  characters starts and ends where the block ends, so the matches are the maximal blocks
  made of at least three lower-case letters and nothing else, from left to right.
\<close>

definition isWordChar :: "char \<Rightarrow> bool" where
  "isWordChar c =
     (let n = (of_char c :: nat)
      in (48 \<le> n \<and> n \<le> 57) \<or> (65 \<le> n \<and> n \<le> 90) \<or> n = 95 \<or> (97 \<le> n \<and> n \<le> 122))"

definition isLowerAZ :: "char \<Rightarrow> bool" where
  "isLowerAZ c = (let n = (of_char c :: nat) in 97 \<le> n \<and> n \<le> 122)"

definition flush :: "string \<Rightarrow> string list" where
  "flush acc = (if acc = [] then [] else [rev acc])"

fun wordRuns :: "string \<Rightarrow> string \<Rightarrow> string list" where
  "wordRuns acc [] = flush acc"
| "wordRuns acc (c # cs) =
     (if isWordChar c then wordRuns (c # acc) cs else flush acc @ wordRuns [] cs)"

definition isKeywordShape :: "string \<Rightarrow> bool" where
  "isKeywordShape w = (3 \<le> length w \<and> list_all isLowerAZ w)"

definition matchWords :: "string \<Rightarrow> string list" where
  "matchWords t = filter isKeywordShape (wordRuns [] t)"

definition stopwords :: "string list" where
  "stopwords =
     [''the'', ''and'', ''for'', ''with'', ''that'', ''this'', ''from'', ''are'', ''but'',
      ''can'', ''has'', ''have'', ''been'', ''one'', ''like'', ''when'', ''where'', ''what'',
      ''which'', ''who'', ''why'', ''how'']"

text \<open>The words one record adds: from \<open>summary || raw_text || ""\<close>, lower-cased.\<close>

definition recordWords :: "FeedbackRecord \<Rightarrow> string list" where
  "recordWords feedback =
     filter (\<lambda>w. w \<notin> set stopwords)
       (matchWords (toLowerCase (orElse (summary feedback) (raw_text feedback))))"

text \<open>
  \<open>wordFreq\<close> is a \<open>Map\<close>: its entries are kept in the order of their first insertion, and
  \<open>wordFreq.set(word, (wordFreq.get(word) || 0) + 1)\<close> leaves an existing key in place.
\<close>

type_synonym wordmap = "(string \<times> nat) list"

fun countWord :: "wordmap \<Rightarrow> string \<Rightarrow> wordmap" where
  "countWord [] w = [(w, 1)]"
| "countWord ((k, c) # m) w = (if k = w then (k, c + 1) # m else (k, c) # countWord m w)"

text \<open>
  \<open>Array.from(wordFreq).sort((a, b) => b.count - a.count).slice(0, 50)\<close>: the sort of the
  language is stable, so it is the stable sort on the count, largest first.
\<close>

definition byCountDesc :: "('a \<times> nat) list \<Rightarrow> ('a \<times> nat) list" where
  "byCountDesc xs = sort_key (\<lambda>e. - int (snd e)) xs"

definition rankWords :: "wordmap \<Rightarrow> wordmap" where
  "rankWords wordFreq = take 50 (byCountDesc wordFreq)"

subsection \<open>The handler of \<open>GET /api/stats\<close>\<close>

record distributions =
  byPriority :: counter
  bySentiment :: counter
  byCategory :: counter

record Stats = distributions +
  total :: nat
  last7Days :: nat
  topWords :: wordmap

text \<open>
  \<open>new Date(s).getTime()\<close> is the platform's: \<open>dateParse s\<close> is the instant in
  milliseconds, and \<open>None\<close> stands for \<open>NaN\<close>, the time of an invalid date. Every
  comparison with \<open>NaN\<close> is false.
\<close>

definition isRecent :: "(string \<Rightarrow> int option) \<Rightarrow> int \<Rightarrow> FeedbackRecord \<Rightarrow> bool" where
  "isRecent dateParse sevenDaysAgo feedback =
     (case dateParse (created_at feedback) of None \<Rightarrow> False | Some t \<Rightarrow> t > sevenDaysAgo)"

text \<open>The body of \<open>allFeedback.forEach\<close>, on the pair of \<open>stats\<close> and \<open>wordFreq\<close>.\<close>

definition statsStep ::
  "(string \<Rightarrow> int option) \<Rightarrow> int \<Rightarrow> Stats \<times> wordmap \<Rightarrow> FeedbackRecord \<Rightarrow> Stats \<times> wordmap" where
  "statsStep dateParse sevenDaysAgo acc feedback =
     (let stats = fst acc;
          wordFreq = snd acc;
          stats1 = stats\<lparr>byPriority := bump (byPriority stats) (priorityKey feedback)\<rparr>;
          stats2 = stats1\<lparr>bySentiment := bump (bySentiment stats1) (sentimentKey feedback)\<rparr>;
          stats3 = stats2\<lparr>byCategory := bump (byCategory stats2) (categoryKey feedback)\<rparr>;
          stats4 = (if isRecent dateParse sevenDaysAgo feedback
                    then stats3\<lparr>last7Days := last7Days stats3 + 1\<rparr> else stats3)
      in (stats4, foldl countWord wordFreq (recordWords feedback)))"

definition apiStats :: "(string \<Rightarrow> int option) \<Rightarrow> int \<Rightarrow> FeedbackRecord list \<Rightarrow> Stats" where
  "apiStats dateParse now allFeedback =
     (let stats0 = \<lparr>byPriority = [], bySentiment = [], byCategory = [],
                    total = length allFeedback, last7Days = 0, topWords = []\<rparr>;
          sevenDaysAgo = now - 7 * 24 * 60 * 60 * 1000;
          acc = foldl (statsStep dateParse sevenDaysAgo) (stats0, []) allFeedback
      in (fst acc)\<lparr>topWords := rankWords (snd acc)\<rparr>)"

section \<open>Parsed JSON and untyped values\<close>

text \<open>
  A value that came out of \<open>JSON.parse\<close>, \<open>request.json()\<close> or the inference binding.
  Numbers are the integers among the JSON numbers (\<open>String\<close> prints them in full below
  \<open>10^21\<close>). An object lists its own properties.
  A property that is missing reads as \<open>undefined\<close>, which is \<open>None\<close> below; none of the
  property names read by the handlers is a member of \<open>Object.prototype\<close>.
\<close>

datatype json =
    JNull
  | JBool bool
  | JNum int
  | JStr string
  | JArr "json list"
  | JObj "(string \<times> json) list"

datatype error = TypeError string | SyntaxError | StoreError | BindingError | FetchError string

fun field :: "json \<Rightarrow> string \<Rightarrow> json option" where
  "field (JObj ps) k = map_of ps k"
| "field v k = None"

text \<open>\<open>a ?? b\<close>: the right operand when the left is \<open>null\<close> or \<open>undefined\<close>.\<close>

fun nullish :: "json option \<Rightarrow> json option \<Rightarrow> json option" where
  "nullish None b = b"
| "nullish (Some JNull) b = b"
| "nullish (Some v) b = Some v"

fun truthy :: "json \<Rightarrow> bool" where
  "truthy JNull = False"
| "truthy (JBool b) = b"
| "truthy (JNum n) = (n \<noteq> 0)"
| "truthy (JStr s) = (s \<noteq> [])"
| "truthy (JArr vs) = True"
| "truthy (JObj ps) = True"

text \<open>Decimal digits of a natural number, and of an integer.\<close>

fun showNat :: "nat \<Rightarrow> string" where
  "showNat n =
     (if n < 10 then [char_of (48 + n)] else showNat (n div 10) @ [char_of (48 + n mod 10)])"

declare showNat.simps [simp del]

definition showInt :: "int \<Rightarrow> string" where
  "showInt i = (if i < 0 then CHR ''-'' # showNat (nat (- i)) else showNat (nat i))"

fun joinWith :: "string \<Rightarrow> string list \<Rightarrow> string" where
  "joinWith sep [] = []"
| "joinWith sep [x] = x"
| "joinWith sep (x # y # ys) = x @ sep @ joinWith sep (y # ys)"

fun sequence :: "(error + 'a) list \<Rightarrow> error + 'a list" where
  "sequence [] = Inr []"
| "sequence (Inl e # rs) = Inl e"
| "sequence (Inr x # rs) = (case sequence rs of Inl e \<Rightarrow> Inl e | Inr xs \<Rightarrow> Inr (x # xs))"

text \<open>
  \<open>String(v)\<close>. An array joins the strings of its elements with commas, \<open>null\<close> elements
  giving the empty string. An object answers \<open>[object Object]\<close> through the inherited
  \<open>toString\<close>; when it has an own property \<open>toString\<close>, which after \<open>JSON.parse\<close> is never a
  function, no conversion to a primitive exists and a \<open>TypeError\<close> is thrown.
\<close>

fun jsString :: "json \<Rightarrow> error + string"
  and jsElement :: "json \<Rightarrow> error + string" where
  "jsString JNull = Inr ''null''"
| "jsString (JBool b) = Inr (if b then ''true'' else ''false'')"
| "jsString (JNum n) = Inr (showInt n)"
| "jsString (JStr s) = Inr s"
| "jsString (JArr vs) =
     (case sequence (map jsElement vs) of Inl e \<Rightarrow> Inl e | Inr ss \<Rightarrow> Inr (joinWith '','' ss))"
| "jsString (JObj ps) =
     (if ''toString'' \<in> set (map fst ps)
      then Inl (TypeError ''Cannot convert object to primitive value'')
      else Inr ''[object Object]'')"
| "jsElement JNull = Inr []"
| "jsElement v = jsString v"

section \<open>Helpers of the worker\<close>

definition PRIORITIES :: "string list" where
  "PRIORITIES = [''P0'', ''P1'', ''P2'', ''P3'']"

definition SENTIMENTS :: "string list" where
  "SENTIMENTS = [''negative'', ''neutral'', ''positive'']"

fun sanitizeChoice :: "json option \<Rightarrow> string list \<Rightarrow> string option" where
  "sanitizeChoice (Some (JStr s)) allowed = (if s \<in> set allowed then Some s else None)"
| "sanitizeChoice v allowed = None"

fun sanitizeNullable :: "json option \<Rightarrow> error + string option" where
  "sanitizeNullable None = Inr None"
| "sanitizeNullable (Some JNull) = Inr None"
| "sanitizeNullable (Some v) =
     (case jsString v of
        Inl e \<Rightarrow> Inl e
      | Inr s \<Rightarrow> (let str = trim s in Inr (if str \<noteq> [] then Some str else None)))"

section \<open>The classifier\<close>

subsection \<open>The rule-based labels of \<open>mockAiInference\<close>\<close>

definition negativeWords :: "string list" where
  "negativeWords =
     [''crash'', ''fail'', ''error'', ''bug'', ''slow'', ''break'', ''issue'', ''problem'',
      ''broken'']"

definition positiveWords :: "string list" where
  "positiveWords = [''great'', ''awesome'', ''love'', ''excellent'', ''nice'', ''good'']"

definition mockSentiment :: "string \<Rightarrow> string" where
  "mockSentiment lowerText =
     (if list_ex (includesStr lowerText) negativeWords then ''negative''
      else if list_ex (includesStr lowerText) positiveWords then ''positive''
      else ''neutral'')"

text \<open>The chain of priority rules; it sets the priority and a first category.\<close>

definition mockPriority :: "string \<Rightarrow> string \<times> string" where
  "mockPriority lowerText =
     (if includesStr lowerText ''outage'' \<or> includesStr lowerText ''down''
         \<or> includesStr lowerText ''data loss'' \<or> includesStr lowerText ''security''
      then (''P0'', if includesStr lowerText ''security'' then ''security'' else ''bug'')
      else if includesStr lowerText ''crash'' \<or> includesStr lowerText ''blocked''
         \<or> includesStr lowerText ''blocks all''
      then (''P1'', ''bug'')
      else if includesStr lowerText ''slow'' then (''P1'', ''performance'')
      else if includesStr lowerText ''feature'' \<or> includesStr lowerText ''request''
         \<or> includesStr lowerText ''like to''
      then (''P3'', ''feature_request'')
      else (''P3'', ''other''))"

text \<open>The four category rules that follow, each overwriting the category so far.\<close>

definition mockCategory :: "string \<Rightarrow> string \<Rightarrow> string" where
  "mockCategory lowerText category0 =
     (let category1 = (if includesStr lowerText ''perform'' then ''performance'' else category0);
          category2 = (if includesStr lowerText ''doc'' then ''docs'' else category1);
          category3 = (if includesStr lowerText ''billing'' \<or> includesStr lowerText ''payment''
                       then ''billing'' else category2)
      in if includesStr lowerText ''ui'' \<or> includesStr lowerText ''ux'' then ''ux''
         else category3)"

definition mockAiInference :: "string \<Rightarrow> json" where
  "mockAiInference text =
     (let lowerText = toLowerCase text;
          sentiment = mockSentiment lowerText;
          priority = fst (mockPriority lowerText);
          category = mockCategory lowerText (snd (mockPriority lowerText))
      in JObj
           [(''sentiment'', JStr sentiment),
            (''priority'', JStr priority),
            (''category'', JStr category),
            (''summary'', JStr (slice0 120 text)),
            (''priority_reason'',
               JStr (priority @ '' priority due to '' @ sentiment @ '' sentiment and ''
                     @ category @ '' issue''))])"

subsection \<open>Reading the answer of the model\<close>

definition isObjectType :: "json \<Rightarrow> bool" where
  "isObjectType v = (case v of JArr _ \<Rightarrow> True | JObj _ \<Rightarrow> True | _ \<Rightarrow> False)"

text \<open>The loop over the five keys of \<open>pickAiText\<close>: the first that holds a non-blank string.\<close>

fun firstText :: "json \<Rightarrow> string list \<Rightarrow> string option" where
  "firstText maybe [] = None"
| "firstText maybe (key # keys) =
     (case field maybe key of
        Some (JStr s) \<Rightarrow> (if trim s \<noteq> [] then Some s else firstText maybe keys)
      | _ \<Rightarrow> firstText maybe keys)"

definition lastMessageText :: "json \<Rightarrow> string option" where
  "lastMessageText maybe =
     (case field maybe ''messages'' of
        Some (JArr msgs) \<Rightarrow>
          (if msgs = [] then None
           else (case field (last msgs) ''content'' of
                   Some (JStr s) \<Rightarrow> (if truthy (last msgs) \<and> trim s \<noteq> [] then Some s else None)
                 | _ \<Rightarrow> None))
      | _ \<Rightarrow> None)"

definition pickAiText :: "json \<Rightarrow> string option" where
  "pickAiText response =
     (if \<not> truthy response then None
      else (case response of
              JStr s \<Rightarrow> Some s
            | _ \<Rightarrow>
               (if isObjectType response
                then (case firstText response [''response'', ''result'', ''text'', ''output'', ''content''] of
                        Some s \<Rightarrow> Some s
                      | None \<Rightarrow> lastMessageText response)
                else None)))"

definition indexOf :: "char \<Rightarrow> string \<Rightarrow> nat option" where
  "indexOf c s = (if c \<in> set s then Some (length (takeWhile (\<lambda>x. x \<noteq> c) s)) else None)"

definition lastIndexOf :: "char \<Rightarrow> string \<Rightarrow> nat option" where
  "lastIndexOf c s =
     (if c \<in> set s then Some (length s - 1 - length (takeWhile (\<lambda>x. x \<noteq> c) (rev s)))
      else None)"

text \<open>
  \<open>JSON.parse\<close> is the platform's; \<open>jsonParse t\<close> is the parsed value, \<open>None\<close> when it
  throws. \<open>safeParseAiJson\<close> hands it the text from the first opening brace to the last
  closing one.
\<close>

definition safeParseAiJson :: "(string \<Rightarrow> json option) \<Rightarrow> string \<Rightarrow> json option" where
  "safeParseAiJson jsonParse text =
     (let trimmed = trim text
      in case (indexOf CHR ''{'' trimmed, lastIndexOf CHR ''}'' trimmed) of
           (Some start, Some end) \<Rightarrow>
             (if end \<le> start then None
              else (case jsonParse (take (end + 1 - start) (drop start trimmed)) of
                      None \<Rightarrow> None
                    | Some parsed \<Rightarrow>
                        (if truthy parsed \<and> isObjectType parsed then Some parsed else None)))
         | _ \<Rightarrow> None)"

subsection \<open>\<open>inferFeedbackMetadata\<close>\<close>

text \<open>
  The environment of the worker. A binding \<open>AI\<close>, when present, answers a request (the
  texts handed to the model) by throwing or by returning a value; \<open>JNull\<close> also stands
  for \<open>undefined\<close>.
\<close>

datatype ai_outcome = AiThrows string | AiReturns json

record Env =
  AI :: "(string list \<Rightarrow> ai_outcome) option"
  USE_MOCK_AI :: "string option"
  SLACK_WEBHOOK_URL :: "string option"

definition isSet :: "string option \<Rightarrow> bool" where
  "isSet v = (case v of None \<Rightarrow> False | Some s \<Rightarrow> s \<noteq> [])"

definition newline :: string where
  "newline = [CHR 0x0A]"

definition systemPrompt :: string where
  "systemPrompt =
     ''You are a product feedback triage assistant. ''
     @ ''Return ONLY a valid compact JSON object. No markdown. No extra text.''"

definition userPrompt :: "string \<Rightarrow> string \<Rightarrow> string" where
  \<open>userPrompt src text =
     joinWith newline
       [''Analyze the following user feedback and classify it.'',
        ''Return a JSON object with EXACTLY these keys:'',
        [],
        ''sentiment: one of ["negative","neutral","positive"]'',
        ''priority: one of ["P0","P1","P2","P3"]'',
        ''category: one short label like "bug","performance","billing","docs","ux","feature_request","security","other"'',
        ''priority_reason: 1 concise sentence explaining why this priority was chosen'',
        ''summary: 1 concise sentence summarizing the feedback'',
        [],
        ''Do NOT summarize or rewrite the feedback.'',
        ''The original feedback text will be stored and displayed separately.'',
        [],
        ''Priority definitions:'',
        ''P0 = outage, data loss, security issue, payment failure'',
        ''P1 = major broken feature that blocks many users'',
        ''P2 = significant issue but workaround exists'',
        ''P3 = minor issue or nice-to-have'',
        [],
        ''Source: '' @ src,
        ''Original user feedback:'',
        ''"'' @ text @ ''"'',
        [],
        ''Return JSON ONLY. Example:'',
        ''{"sentiment":"negative","priority":"P1","category":"bug","priority_reason":"Login failure blocks all users from accessing the product."}'']\<close>

text \<open>
  The class \<open>Ai\<close> comes from the package \<open>@cloudflare/ai\<close>. What it does when it is built on
  a missing binding is a parameter: its constructor throws (outside the \<open>try\<close>), or the
  later call of \<open>run\<close> has some outcome (inside the \<open>try\<close>).
\<close>

datatype missing_binding = ConstructorThrows | RunGives ai_outcome

text \<open>The statements inside \<open>try\<close>, after the call of \<open>ai.run\<close> has returned.\<close>

definition readLabels :: "(string \<Rightarrow> json option) \<Rightarrow> json \<Rightarrow> json option" where
  "readLabels jsonParse response =
     (case pickAiText response of
        None \<Rightarrow> None
      | Some text \<Rightarrow> safeParseAiJson jsonParse text)"

text \<open>The \<open>try\<close> with its \<open>catch\<close>, which logs the error and returns \<open>null\<close>.\<close>

definition tryLabels :: "(string \<Rightarrow> json option) \<Rightarrow> ai_outcome \<Rightarrow> json option" where
  "tryLabels jsonParse outcome =
     (case outcome of
        AiThrows e \<Rightarrow> None
      | AiReturns response \<Rightarrow> readLabels jsonParse response)"

definition inferFeedbackMetadata ::
  "(string \<Rightarrow> json option) \<Rightarrow> missing_binding \<Rightarrow> Env \<Rightarrow> string \<Rightarrow> string \<Rightarrow> error + json option" where
  "inferFeedbackMetadata jsonParse noBinding env src text =
     (if AI env = None \<and> \<not> isSet (USE_MOCK_AI env) then Inr None
      else if text = [] then Inr None
      else if USE_MOCK_AI env = Some ''true'' then Inr (Some (mockAiInference text))
      else (case AI env of
              Some run \<Rightarrow> Inr (tryLabels jsonParse (run [systemPrompt, userPrompt src text]))
            | None \<Rightarrow>
               (case noBinding of
                  ConstructorThrows \<Rightarrow> Inl BindingError
                | RunGives outcome \<Rightarrow> Inr (tryLabels jsonParse outcome))))"

section \<open>The handler of \<open>POST /ingest\<close>\<close>

text \<open>
  The request as the handler reads it: its method, whether \<open>ensureAuthorized\<close> answered
  with a rejection, and the value of \<open>request.json()\<close>, \<open>None\<close> when that throws.
\<close>

record IngestRequest =
  httpMethod :: string
  authRejected :: bool
  body :: "json option"

datatype response = Plain nat string | Stored FeedbackRecord

definition andThen :: "error + 'a \<Rightarrow> ('a \<Rightarrow> error + 'b) \<Rightarrow> error + 'b" where
  "andThen r f = (case r of Inl e \<Rightarrow> Inl e | Inr x \<Rightarrow> f x)"

text \<open>
  \<open>String(payload.k ?? "").trim()\<close>. Reading a property of \<open>null\<close> throws; every other
  value that is no object reads as \<open>undefined\<close>.
\<close>

definition payloadText :: "json \<Rightarrow> string \<Rightarrow> error + string" where
  "payloadText payload k =
     (if payload = JNull then Inl (TypeError ''Cannot read properties of null'')
      else (case nullish (field payload k) (Some (JStr [])) of
              None \<Rightarrow> Inr []
            | Some v \<Rightarrow> andThen (jsString v) (\<lambda>s. Inr (trim s))))"

text \<open>\<open>aiLabels?.k\<close>\<close>

definition labelOf :: "json option \<Rightarrow> string \<Rightarrow> json option" where
  "labelOf aiLabels k = (case aiLabels of None \<Rightarrow> None | Some l \<Rightarrow> field l k)"

text \<open>
  The statements from the overrides to the record; \<open>uuid\<close> is \<open>crypto.randomUUID()\<close> and
  \<open>nowISO\<close> is \<open>new Date().toISOString()\<close>.
\<close>

definition buildRecord ::
  "string \<Rightarrow> string \<Rightarrow> json \<Rightarrow> string \<Rightarrow> string \<Rightarrow> json option \<Rightarrow> error + FeedbackRecord" where
  "buildRecord uuid nowISO payload src rawText aiLabels =
     (let sentiment0 = sanitizeChoice (nullish (field payload ''sentiment'') (labelOf aiLabels ''sentiment'')) SENTIMENTS;
          priority0 = sanitizeChoice (nullish (field payload ''priority'') (labelOf aiLabels ''priority'')) PRIORITIES
      in andThen (sanitizeNullable (nullish (field payload ''category'') (labelOf aiLabels ''category'')))
           (\<lambda>category0.
         andThen (sanitizeNullable (nullish (field payload ''summary'') (labelOf aiLabels ''summary'')))
           (\<lambda>summary0.
         andThen (sanitizeNullable
                    (nullish (nullish (field payload ''priority_reason'') (labelOf aiLabels ''priority_reason''))
                       (labelOf aiLabels ''reason'')))
           (\<lambda>priorityReason.
         andThen (sanitizeNullable (field payload ''created_at''))
           (\<lambda>created.
              Inr \<lparr>id_text = uuid, source = src, raw_text = rawText,
                   sentiment = sentiment0, priority = priority0, category = category0,
                   summary = Some (orElse summary0 (slice0 120 rawText)),
                   priority_reason = priorityReason,
                   created_at = (case created of None \<Rightarrow> nowISO | Some c \<Rightarrow> c)\<rparr>)))))"

text \<open>
  The handler. Its result is the response, or the error it lets escape, together with the
  rows it inserted into \<open>feedback\<close>; \<open>insertOk\<close> tells whether the store accepts the insert.
\<close>

definition ingest ::
  "(string \<Rightarrow> json option) \<Rightarrow> missing_binding \<Rightarrow> Env \<Rightarrow> string \<Rightarrow> string \<Rightarrow> bool \<Rightarrow> IngestRequest
     \<Rightarrow> (error + response) \<times> FeedbackRecord list" where
  "ingest jsonParse noBinding env uuid nowISO insertOk request =
     (if httpMethod request \<noteq> ''POST'' then (Inr (Plain 405 ''Method Not Allowed''), [])
      else if authRejected request then (Inr (Plain 401 ''Unauthorized''), [])
      else (case body request of
              None \<Rightarrow> (Inr (Plain 400 ''Invalid JSON payload''), [])
            | Some payload \<Rightarrow>
               (case andThen (payloadText payload ''source'') (\<lambda>src.
                     andThen (payloadText payload ''raw_text'') (\<lambda>rawText. Inr (src, rawText))) of
                  Inl e \<Rightarrow> (Inl e, [])
                | Inr (src, rawText) \<Rightarrow>
                   (if src = [] \<or> rawText = []
                    then (Inr (Plain 400 ''Both `source` and `raw_text` are required''), [])
                    else (case andThen (inferFeedbackMetadata jsonParse noBinding env src rawText)
                                 (buildRecord uuid nowISO payload src rawText) of
                            Inl e \<Rightarrow> (Inl e, [])
                          | Inr row \<Rightarrow>
                              (if insertOk then (Inr (Stored row), [row])
                               else (Inl StoreError, [])))))))"

section \<open>The daily analysis\<close>

subsection \<open>Grouping and ranking of issues\<close>

text \<open>
  An entry of \<open>topIssues\<close>; the fields \<open>count\<close> and \<open>sentiment\<close> of the source are
  \<open>issueCount\<close> and \<open>issueSentiment\<close> here.
\<close>

record Issue =
  issue :: string
  issueCount :: nat
  issueSentiment :: string

text \<open>
  \<open>issues\<close> is a \<open>Map\<close> from the summary to a count and the sentiment of the first record
  with that summary. \<open>trackIssue\<close> is the body of \<open>if (item.summary)\<close>.
\<close>

type_synonym issuemap = "(string \<times> nat \<times> string) list"

fun trackIssue :: "issuemap \<Rightarrow> string \<Rightarrow> string \<Rightarrow> issuemap" where
  "trackIssue [] k s = [(k, 1, s)]"
| "trackIssue ((k', c, s') # m) k s =
     (if k' = k then (k', c + 1, s') # m else (k', c, s') # trackIssue m k s)"

definition rankIssues :: "issuemap \<Rightarrow> Issue list" where
  "rankIssues issues =
     take 5 (sort_key (\<lambda>i. - int (issueCount i))
               (map (\<lambda>(k, c, s). \<lparr>issue = k, issueCount = c, issueSentiment = s\<rparr>) issues))"

subsection \<open>Recommended actions\<close>

fun splitOn :: "char \<Rightarrow> string \<Rightarrow> string list" where
  "splitOn c [] = [[]]"
| "splitOn c (x # xs) =
     (if x = c then [] # splitOn c xs
      else (case splitOn c xs of [] \<Rightarrow> [[x]] | y # ys \<Rightarrow> (x # y) # ys))"

definition issueLine :: "Issue \<Rightarrow> string" where
  "issueLine i =
     ''- '' @ issue i @ '' ('' @ showNat (issueCount i) @ '' occurrences, sentiment: ''
     @ issueSentiment i @ '')''"

definition analysisPrompt :: "Issue list \<Rightarrow> string" where
  "analysisPrompt issues =
     ''Based on these customer feedback issues:'' @ newline @ newline
     @ joinWith newline (map issueLine issues) @ newline @ newline
     @ ''Provide 3-4 specific, actionable recommendations to address these issues. ''
     @ ''Format as a numbered list.''"

definition genericActions :: "string list" where
  "genericActions =
     [''Review high-priority feedback items'', ''Investigate recurring issues'',
      ''Follow up with affected customers'']"

text \<open>
  \<open>response.result.response\<close> behind its guard. A truthy value that is no string has no
  method \<open>split\<close>: the call throws, and the \<open>catch\<close> puts the three generic actions.
\<close>

definition answerLines :: "json \<Rightarrow> (string list) option option" where
  "answerLines response =
     (if \<not> truthy response then Some None
      else (case field response ''result'' of
              None \<Rightarrow> Some None
            | Some result \<Rightarrow>
               (if \<not> truthy result then Some None
                else (case field result ''response'' of
                        None \<Rightarrow> Some None
                      | Some (JStr s) \<Rightarrow>
                          (if s = [] then Some None
                           else Some (Some (filter (\<lambda>line. trim line \<noteq> []) (splitOn (CHR 0x0A) s))))
                      | Some v \<Rightarrow> (if truthy v then None else Some None)))))"

text \<open>
  The block \<open>if (env.AI && topIssues.length > 0)\<close>; \<open>cap\<close> is the \<open>slice(0, 4)\<close> that only
  the scheduled handler applies to the lines of the answer.
\<close>

definition recommend :: "(string list \<Rightarrow> string list) \<Rightarrow> Env \<Rightarrow> Issue list \<Rightarrow> string list" where
  "recommend cap env issues =
     (case AI env of
        None \<Rightarrow> []
      | Some run \<Rightarrow>
         (if issues = [] then []
          else (case run [analysisPrompt issues] of
                  AiThrows e \<Rightarrow> genericActions
                | AiReturns response \<Rightarrow>
                   (case answerLines response of
                      None \<Rightarrow> genericActions
                    | Some None \<Rightarrow> []
                    | Some (Some ls) \<Rightarrow> cap ls))))"

subsection \<open>The analysis of the workflow\<close>

record analysisCore = distributions +
  totalFeedback :: nat
  topIssues :: "Issue list"
  recommendedActions :: "string list"

record AnalysisResult = analysisCore +
  urgentItems :: "FeedbackRecord list"

definition isUrgentKey :: "string \<Rightarrow> bool" where
  "isUrgentKey p = (p = ''P0'' \<or> p = ''P1'')"

definition issueStep :: "issuemap \<Rightarrow> FeedbackRecord \<Rightarrow> issuemap" where
  "issueStep issues item =
     (case summary item of
        None \<Rightarrow> issues
      | Some s \<Rightarrow> if s = [] then issues else trackIssue issues s (orElse (sentiment item) ''neutral''))"

text \<open>The body of \<open>feedback.forEach\<close> in \<open>analyzeWithAI\<close>, on \<open>stats\<close> and \<open>issues\<close>.\<close>

definition analyzeStep :: "AnalysisResult \<times> issuemap \<Rightarrow> FeedbackRecord \<Rightarrow> AnalysisResult \<times> issuemap" where
  "analyzeStep acc item =
     (let stats = fst acc;
          p = priorityKey item;
          stats1 = stats\<lparr>byPriority := bump (byPriority stats) p\<rparr>;
          stats2 = (if isUrgentKey p then stats1\<lparr>urgentItems := urgentItems stats1 @ [item]\<rparr>
                    else stats1);
          stats3 = stats2\<lparr>bySentiment := bump (bySentiment stats2) (sentimentKey item)\<rparr>;
          stats4 = stats3\<lparr>byCategory := bump (byCategory stats3) (categoryKey item)\<rparr>
      in (stats4, issueStep (snd acc) item))"

definition emptyAnalysis :: "nat \<Rightarrow> AnalysisResult" where
  "emptyAnalysis n =
     \<lparr>byPriority = [], bySentiment = [], byCategory = [], totalFeedback = n, topIssues = [],
      recommendedActions = [], urgentItems = []\<rparr>"

definition analyzeWithAI :: "Env \<Rightarrow> FeedbackRecord list \<Rightarrow> AnalysisResult" where
  "analyzeWithAI env feedback =
     (if length feedback = 0 then emptyAnalysis 0
      else (let acc = foldl analyzeStep (emptyAnalysis (length feedback), []) feedback;
                ranked = rankIssues (snd acc)
            in (fst acc)\<lparr>topIssues := ranked,
                          recommendedActions := recommend (\<lambda>ls. ls) env ranked\<rparr>))"

definition generateInsights :: "AnalysisResult \<Rightarrow> AnalysisResult" where
  "generateInsights analysis =
     \<lparr>byPriority = byPriority analysis, bySentiment = bySentiment analysis,
      byCategory = byCategory analysis, totalFeedback = totalFeedback analysis,
      topIssues = topIssues analysis, recommendedActions = recommendedActions analysis,
      urgentItems = take 5 (urgentItems analysis)\<rparr>"

subsection \<open>Delivery to the notification channel\<close>

text \<open>
  The blocks of the message, by what they show: the heading; the four metrics (total,
  negative, \<open>P0\<close>, \<open>P1\<close>); a divider; the listed top issues; the listed actions; the heading
  of the urgent section with the count it prints; one urgent entry (priority, the summary
  or else the first 80 characters of the raw text, source, creation time); the button with
  its address; and the error notice of the scheduled handler.
\<close>

datatype block =
    Header
  | Metrics nat cell cell cell
  | Divider
  | TopIssues "Issue list"
  | Recommended "string list"
  | UrgentHeading nat
  | UrgentEntry "string option" string string string
  | DashboardButton string
  | ErrorNotice string

text \<open>
  \<open>fetch(url, ...)\<close> throws or answers with a status; \<open>response.ok\<close> holds for the
  statuses 200 to 299. An event is a call of a collaborator: a post to an address, or an
  insert into \<open>analysis_logs\<close> with whether the store accepted it.
\<close>

datatype fetch_outcome = FetchThrows string | FetchStatus nat

record LogRow =
  timestamp :: string
  total_feedback :: nat
  negative_count :: cell
  p0_count :: cell
  p1_count :: cell
  data :: string

datatype event = Post string "block list" | Insert LogRow bool

datatype slack_result = NotConfigured | Answered bool nat | Failed string

text \<open>
  \<open>new URL(s)\<close> is the platform's: \<open>parseURL s\<close> gives the parts of the address that
  the code reads, and \<open>None\<close> when the constructor throws.
\<close>

record URL =
  hostname :: string
  pathname :: string
  origin :: string

definition isValidSlackWebhook :: "(string \<Rightarrow> URL option) \<Rightarrow> string \<Rightarrow> bool" where
  "isValidSlackWebhook parseURL url =
     (case parseURL url of
        None \<Rightarrow> False
      | Some parsed \<Rightarrow> hostname parsed = ''hooks.slack.com'' \<and> startsWith (pathname parsed) ''/services/'')"

definition responseOk :: "nat \<Rightarrow> bool" where
  "responseOk status = (200 \<le> status \<and> status \<le> 299)"

text \<open>A delivery has failed when the post throws or its status is not ok.\<close>

definition deliveryFailed :: "fetch_outcome \<Rightarrow> bool" where
  "deliveryFailed out =
     (case out of FetchThrows e \<Rightarrow> True | FetchStatus status \<Rightarrow> \<not> responseOk status)"

definition urgentEntry :: "FeedbackRecord \<Rightarrow> block" where
  "urgentEntry item =
     UrgentEntry (priority item) (orElse (summary item) (slice0 80 (raw_text item)))
       (source item) (created_at item)"

text \<open>The first three blocks, and the top issues when there are any.\<close>

definition openingBlocks :: "'a analysisCore_scheme \<Rightarrow> block list" where
  "openingBlocks a =
     [Header,
      Metrics (totalFeedback a) (countOf (bySentiment a) ''negative'')
        (countOf (byPriority a) ''P0'') (countOf (byPriority a) ''P1''),
      Divider]
     @ (if length (topIssues a) > 0 then [TopIssues (take 3 (topIssues a))] else [])"

definition urgentBlocks :: "AnalysisResult \<Rightarrow> block list" where
  "urgentBlocks insights =
     (if length (urgentItems insights) > 0
      then [Divider, UrgentHeading (length (urgentItems insights))]
           @ map urgentEntry (take 3 (urgentItems insights))
      else [])"

text \<open>
  \<open>sendToSlack\<close> of the workflow. The address of the button is
  \<open>new URL(webhook).origin\<close> followed by \<open>/dashboard\<close>; it is evaluated before the \<open>try\<close>,
  so an address that does not parse makes the method throw.
\<close>

definition sendToSlack ::
  "(string \<Rightarrow> URL option) \<Rightarrow> (string \<Rightarrow> block list \<Rightarrow> fetch_outcome) \<Rightarrow> Env \<Rightarrow> AnalysisResult
     \<Rightarrow> (error + slack_result) \<times> event list" where
  "sendToSlack parseURL fetch env insights =
     (case SLACK_WEBHOOK_URL env of
        None \<Rightarrow> (Inr NotConfigured, [])
      | Some url \<Rightarrow>
         (if url = [] then (Inr NotConfigured, [])
          else (let blocks = openingBlocks insights
                      @ (if length (recommendedActions insights) > 0
                         then [Divider, Recommended (take 3 (recommendedActions insights))] else [])
                      @ urgentBlocks insights
                in case parseURL url of
                     None \<Rightarrow> (Inl (TypeError ''Invalid URL''), [])
                   | Some parsed \<Rightarrow>
                      (let message = blocks @ [DashboardButton (origin parsed @ ''/dashboard'')]
                       in case fetch url message of
                            FetchStatus status \<Rightarrow>
                              (Inr (Answered (responseOk status) status), [Post url message])
                          | FetchThrows e \<Rightarrow> (Inr (Failed e), [Post url message])))))"

subsection \<open>The audit log\<close>

text \<open>
  \<open>logAnalysis\<close>: one insert, whose failure is caught and logged to the console. \<open>nowISO\<close>
  is \<open>new Date().toISOString()\<close>, \<open>stringify\<close> is \<open>JSON.stringify\<close> on the analysis, and
  \<open>accepts row\<close> tells whether the store takes the row.
\<close>

definition logRow :: "string \<Rightarrow> ('a analysisCore_scheme \<Rightarrow> string) \<Rightarrow> 'a analysisCore_scheme \<Rightarrow> LogRow" where
  "logRow nowISO stringify a =
     \<lparr>timestamp = nowISO, total_feedback = totalFeedback a,
      negative_count = countOf (bySentiment a) ''negative'',
      p0_count = countOf (byPriority a) ''P0'',
      p1_count = countOf (byPriority a) ''P1'',
      data = stringify a\<rparr>"

definition logAnalysis ::
  "string \<Rightarrow> ('a analysisCore_scheme \<Rightarrow> string) \<Rightarrow> (LogRow \<Rightarrow> bool) \<Rightarrow> 'a analysisCore_scheme \<Rightarrow> event list" where
  "logAnalysis nowISO stringify accepts a =
     (let row = logRow nowISO stringify a in [Insert row (accepts row)])"

text \<open>The rows that a sequence of events has added to \<open>analysis_logs\<close>.\<close>

fun loggedRows :: "event list \<Rightarrow> LogRow list" where
  "loggedRows [] = []"
| "loggedRows (Insert row ok # es) = (if ok then row # loggedRows es else loggedRows es)"
| "loggedRows (Post url blocks # es) = loggedRows es"

fun posts :: "event list \<Rightarrow> (string \<times> block list) list" where
  "posts [] = []"
| "posts (Post url blocks # es) = (url, blocks) # posts es"
| "posts (Insert row ok # es) = posts es"

fun inserts :: "event list \<Rightarrow> LogRow list" where
  "inserts [] = []"
| "inserts (Insert row ok # es) = row # inserts es"
| "inserts (Post url blocks # es) = inserts es"

subsection \<open>The workflow \<open>DailyAnalysisWorkflow\<close>\<close>

text \<open>
  The collaborators of one run: the answer of the store to the query for the last 24
  hours (it throws, or gives \<open>results\<close>, which may be undefined), the network, the store's
  answer to an insert, and the platform functions.
\<close>

datatype query_outcome = QueryThrows | QueryRows "FeedbackRecord list option"

record 'a World =
  query :: query_outcome
  fetch :: "string \<Rightarrow> block list \<Rightarrow> fetch_outcome"
  accepts :: "LogRow \<Rightarrow> bool"
  parseURL :: "string \<Rightarrow> URL option"
  nowISO :: string
  stringify :: "'a \<Rightarrow> string"

definition fetchRecentFeedback :: "query_outcome \<Rightarrow> error + FeedbackRecord list" where
  "fetchRecentFeedback q =
     (case q of
        QueryThrows \<Rightarrow> Inl StoreError
      | QueryRows results \<Rightarrow> Inr (case results of None \<Rightarrow> [] | Some rows \<Rightarrow> rows))"

text \<open>
  \<open>run\<close>: the five steps in order. A step that throws ends the run with its error (the
  engine's repetition of a failed step is not part of the model). The result is the
  returned insights, or the error, with the calls made to the collaborators in order.
\<close>

definition run :: "AnalysisResult World \<Rightarrow> Env \<Rightarrow> (error + AnalysisResult) \<times> event list" where
  "run w env =
     (case fetchRecentFeedback (query w) of
        Inl e \<Rightarrow> (Inl e, [])
      | Inr feedbackData \<Rightarrow>
         (let analysis = analyzeWithAI env feedbackData;
              insights = generateInsights analysis;
              sent = sendToSlack (parseURL w) (fetch w) env insights
          in case fst sent of
               Inl e \<Rightarrow> (Inl e, snd sent)
             | Inr slackResult \<Rightarrow>
                 (Inr insights, snd sent @ logAnalysis (nowISO w) (stringify w) (accepts w) insights)))"

subsection \<open>The scheduled handler \<open>handleScheduled\<close>\<close>

record ScheduledAnalysis = analysisCore +
  urgentCount :: nat

text \<open>The body of \<open>feedbackData.forEach\<close> in \<open>analyzeFeedback\<close>.\<close>

definition feedbackStep ::
  "ScheduledAnalysis \<times> issuemap \<Rightarrow> FeedbackRecord \<Rightarrow> ScheduledAnalysis \<times> issuemap" where
  "feedbackStep acc item =
     (let stats = fst acc;
          p = priorityKey item;
          stats1 = stats\<lparr>byPriority := bump (byPriority stats) p\<rparr>;
          stats2 = (if isUrgentKey p then stats1\<lparr>urgentCount := urgentCount stats1 + 1\<rparr>
                    else stats1);
          stats3 = stats2\<lparr>bySentiment := bump (bySentiment stats2) (sentimentKey item)\<rparr>;
          stats4 = stats3\<lparr>byCategory := bump (byCategory stats3) (categoryKey item)\<rparr>
      in (stats4, issueStep (snd acc) item))"

definition analyzeFeedback :: "Env \<Rightarrow> FeedbackRecord list \<Rightarrow> ScheduledAnalysis" where
  "analyzeFeedback env feedbackData =
     (let stats0 = \<lparr>byPriority = [], bySentiment = [], byCategory = [],
                    totalFeedback = length feedbackData, topIssues = [],
                    recommendedActions = [], urgentCount = 0\<rparr>;
          acc = foldl feedbackStep (stats0, []) feedbackData;
          ranked = rankIssues (snd acc)
      in (fst acc)\<lparr>topIssues := ranked, recommendedActions := recommend (take 4) env ranked\<rparr>)"

definition hasUrgentPriority :: "FeedbackRecord \<Rightarrow> bool" where
  "hasUrgentPriority item = (priority item = Some ''P0'' \<or> priority item = Some ''P1'')"

text \<open>
  \<open>sendToSlack\<close> of the scheduled handler. The answer of the network \<open>net\<close> only goes to
  the console: a status that is not ok and a thrown error are both caught.
\<close>

definition sendToSlackScheduled ::
  "(string \<Rightarrow> block list \<Rightarrow> fetch_outcome) \<Rightarrow> ScheduledAnalysis \<Rightarrow> string \<Rightarrow> FeedbackRecord list
     \<Rightarrow> event list" where
  "sendToSlackScheduled net analysis webhookUrl feedbackData =
     (let message = openingBlocks analysis
            @ (if length (recommendedActions analysis) > 0
               then [Divider, Recommended (recommendedActions analysis)] else [])
            @ (if urgentCount analysis > 0
               then [Divider, UrgentHeading (urgentCount analysis)]
                    @ map urgentEntry (take 3 (filter hasUrgentPriority feedbackData))
               else [])
            @ [DashboardButton ''https://your-domain.com/dashboard'']
      in [Post webhookUrl message])"

definition notifyError :: "error \<Rightarrow> string \<Rightarrow> event list" where
  "notifyError e webhookUrl = [Post webhookUrl [ErrorNotice ''Feedback Analysis Error'']]"

text \<open>
  \<open>handleScheduled\<close>. The query is the one statement of the \<open>try\<close> whose error reaches the
  \<open>catch\<close>; the handler itself never throws. The result is the sequence of calls made.
\<close>

definition handleScheduled :: "ScheduledAnalysis World \<Rightarrow> Env \<Rightarrow> event list" where
  "handleScheduled w env =
     (case query w of
        QueryThrows \<Rightarrow>
          (if isSet (SLACK_WEBHOOK_URL env)
           then notifyError StoreError (case SLACK_WEBHOOK_URL env of None \<Rightarrow> [] | Some u \<Rightarrow> u)
           else [])
      | QueryRows results \<Rightarrow>
          (case results of
             None \<Rightarrow> []
           | Some feedbackData \<Rightarrow>
              (if length feedbackData = 0 then []
               else (let analysis = analyzeFeedback env feedbackData
                     in (case SLACK_WEBHOOK_URL env of
                           None \<Rightarrow> []
                         | Some u \<Rightarrow>
                            (if u = [] then []
                             else sendToSlackScheduled (fetch w) analysis u feedbackData))
                        @ logAnalysis (nowISO w) (stringify w) (accepts w) analysis))))"

section \<open>Notions used to state the properties\<close>

text \<open>A key is safe for a counting object when it names no member of \<open>Object.prototype\<close>.\<close>

definition ownKey :: "string \<Rightarrow> bool" where
  "ownKey k = (inheritedText k = None)"

definition ownKeys :: "FeedbackRecord \<Rightarrow> bool" where
  "ownKeys r = (ownKey (priorityKey r) \<and> ownKey (sentimentKey r) \<and> ownKey (categoryKey r))"



text \<open>All keywords of a list of records, in the order in which the handler meets them.\<close>

definition keywordTokens :: "FeedbackRecord list \<Rightarrow> string list" where
  "keywordTokens rs = concat (map recordWords rs)"

text \<open>
  The distinct elements of a list in the order of their first occurrence, and the
  position of the first occurrence of an element.
\<close>

fun firstSeen :: "'a list \<Rightarrow> 'a list" where
  "firstSeen [] = []"
| "firstSeen (x # xs) = x # filter (\<lambda>y. y \<noteq> x) (firstSeen xs)"

definition firstIndex :: "'a list \<Rightarrow> 'a \<Rightarrow> nat" where
  "firstIndex xs w = length (takeWhile (\<lambda>x. x \<noteq> w) xs)"

text \<open>
  The ranked list in the words of the specification: every distinct keyword with the
  number of its occurrences over all records, sorted by that number, largest first, ties
  in the order of first occurrence, cut after 50 entries. \<open>rankOrder\<close> is the order that
  such a list follows from one entry to any later one.
\<close>

definition rankedKeywords :: "FeedbackRecord list \<Rightarrow> wordmap" where
  "rankedKeywords rs =
     (let toks = keywordTokens rs
      in take 50 (sort_key (\<lambda>e. - int (snd e))
                    (map (\<lambda>w. (w, count_list toks w)) (firstSeen toks))))"

definition rankOrder :: "string list \<Rightarrow> string \<times> nat \<Rightarrow> string \<times> nat \<Rightarrow> bool" where
  "rankOrder toks a b =
     (snd a > snd b \<or> (snd a = snd b \<and> firstIndex toks (fst a) < firstIndex toks (fst b)))"

section \<open>Inputs for the worked examples\<close>

definition outageText :: string where
  "outageText = ''App is down, can'' @ [CHR 0x27] @ ''t log in, losing money''"

definition sampleRecord :: FeedbackRecord where
  "sampleRecord =
     \<lparr>id_text = ''f-1'', source = ''email'', raw_text = ''Export to CSV fails on large files'',
      sentiment = Some ''negative'', priority = Some ''P1'', category = Some ''bug'',
      summary = Some ''Export fails'', priority_reason = None,
      created_at = ''2026-01-01T08:00:00.000Z''\<rparr>"

text \<open>The same feedback filed under a category that names a member of \<open>Object.prototype\<close>.\<close>

definition constructorRecord :: FeedbackRecord where
  "constructorRecord = sampleRecord\<lparr>category := Some ''constructor''\<rparr>"

text \<open>A record whose creation time does not parse and whose category is \<open>__proto__\<close>.\<close>

definition undatedRecord :: FeedbackRecord where
  "undatedRecord = sampleRecord\<lparr>category := Some ''__proto__'', created_at := ''last tuesday''\<rparr>"

text \<open>What the platform answers on the dates and addresses that the examples use.\<close>

definition knownDates :: "string \<Rightarrow> int option" where
  "knownDates s = (if s = ''2026-01-01T08:00:00.000Z'' then Some 1767254400000 else None)"

definition hookURL :: string where
  "hookURL = ''https://hooks.slack.com/services/T000/B000/XXXX''"

definition otherURL :: string where
  "otherURL = ''https://example.com/hook''"

definition knownURLs :: "string \<Rightarrow> URL option" where
  "knownURLs s =
     (if s = hookURL
      then Some \<lparr>hostname = ''hooks.slack.com'', pathname = ''/services/T000/B000/XXXX'',
                 origin = ''https://hooks.slack.com''\<rparr>
      else if s = otherURL
      then Some \<lparr>hostname = ''example.com'', pathname = ''/hook'', origin = ''https://example.com''\<rparr>
      else None)"

text \<open>Three networks: one that answers 200, one that answers 500, one that throws.\<close>

definition delivered :: "string \<Rightarrow> block list \<Rightarrow> fetch_outcome" where
  "delivered url message = FetchStatus 200"

definition serverError :: "string \<Rightarrow> block list \<Rightarrow> fetch_outcome" where
  "serverError url message = FetchStatus 500"

definition unreachable :: "string \<Rightarrow> block list \<Rightarrow> fetch_outcome" where
  "unreachable url message = FetchThrows ''network error''"

definition acceptAll :: "LogRow \<Rightarrow> bool" where
  "acceptAll row = True"

text \<open>A stand-in for \<open>JSON.stringify\<close> that prints the total of the analysis only.\<close>

definition totalOnly :: "'a analysisCore_scheme \<Rightarrow> string" where
  "totalOnly a = showNat (totalFeedback a)"

definition world ::
  "query_outcome \<Rightarrow> (string \<Rightarrow> block list \<Rightarrow> fetch_outcome) \<Rightarrow> 'a analysisCore_scheme World" where
  "world q net =
     \<lparr>query = q, fetch = net, accepts = acceptAll, parseURL = knownURLs,
      nowISO = ''2026-01-02T09:00:00.000Z'', stringify = totalOnly\<rparr>"

definition envWith :: "string option \<Rightarrow> Env" where
  "envWith hook = \<lparr>AI = None, USE_MOCK_AI = None, SLACK_WEBHOOK_URL = hook\<rparr>"

text \<open>An inference binding whose call fails, and one that answers with labels.\<close>

definition failingAI :: "string list \<Rightarrow> ai_outcome" where
  "failingAI request = AiThrows ''inference timed out''"

definition labelText :: string where
  \<open>labelText = ''{"sentiment":"negative","priority":"P1"}''\<close>

definition answeringAI :: "string list \<Rightarrow> ai_outcome" where
  "answeringAI request = AiReturns (JObj [(''response'', JStr labelText)])"

definition sampleParse :: "string \<Rightarrow> json option" where
  "sampleParse s =
     (if s = labelText
      then Some (JObj [(''sentiment'', JStr ''negative''), (''priority'', JStr ''P1'')])
      else None)"

definition failingEnv :: Env where
  "failingEnv = \<lparr>AI = Some failingAI, USE_MOCK_AI = None, SLACK_WEBHOOK_URL = None\<rparr>"

definition answeringEnv :: Env where
  "answeringEnv = \<lparr>AI = Some answeringAI, USE_MOCK_AI = None, SLACK_WEBHOOK_URL = None\<rparr>"

definition mockEnv :: Env where
  "mockEnv = \<lparr>AI = None, USE_MOCK_AI = Some ''true'', SLACK_WEBHOOK_URL = None\<rparr>"


text \<open>Two records for the keyword ranking; the second has no summary.\<close>

definition keywordRecords :: "FeedbackRecord list" where
  "keywordRecords =
     [sampleRecord,
      sampleRecord\<lparr>summary := None,
                   raw_text := ''The EXPORT is slow; login fails, export_csv too''\<rparr>]"

text \<open>
  A feedback text of 149 characters and its first 120 characters; the body of the request
  carries the text between blanks, and a blank summary.
\<close>

definition longTextHead :: string where
  "longTextHead =
     ''The export to CSV stops after the first ten thousand rows and the file ''
     @ ''that is written has no header line, so the import''"

definition longText :: string where
  "longText = longTextHead @ '' on the other side rejects it''"

definition ingestBody :: json where
  "ingestBody = JObj [(''source'', JStr ''email''), (''raw_text'', JStr (''  '' @ longText @ ''  '')),
                      (''summary'', JStr ''   '')]"

definition ingestRequest :: IngestRequest where
  "ingestRequest = \<lparr>httpMethod = ''POST'', authRejected = False, body = Some ingestBody\<rparr>"

section \<open>The heuristic labels on the outage example\<close>

text \<open>
  Claim C7, as the specification states it: under the heuristic classifier the text
  "App is down, can't log in, losing money" gets priority \<open>P0\<close>, sentiment \<open>negative\<close> and
  category \<open>bug\<close>. The priority and the category are as stated, the sentiment is not.
\<close>

theorem outage_example_sentiment_not_negative:
  "field (mockAiInference outageText) ''priority'' = Some (JStr ''P0'')
   \<and> field (mockAiInference outageText) ''category'' = Some (JStr ''bug'')
   \<and> field (mockAiInference outageText) ''sentiment'' \<noteq> Some (JStr ''negative'')"
  by code_simp

text \<open>
  Claim C7, amended: the text "App is down, can't log in, losing money" gets priority
  \<open>P0\<close> (the keyword \<open>down\<close>), category \<open>bug\<close> and sentiment \<open>neutral\<close>, because none of the
  negative words of the list occurs in it; the summary is the text itself and the reason
  is the sentence built from these three labels.
\<close>

theorem outage_example_labels:
  "mockAiInference outageText =
     JObj [(''sentiment'', JStr ''neutral''), (''priority'', JStr ''P0''),
           (''category'', JStr ''bug''), (''summary'', JStr outageText),
           (''priority_reason'', JStr ''P0 priority due to neutral sentiment and bug issue'')]
   \<and> \<not> list_ex (includesStr (toLowerCase outageText)) negativeWords
   \<and> includesStr (toLowerCase outageText) ''down''"
  by code_simp

section \<open>Records stored by the ingestion handler\<close>


lemma sanitizeNullable_nonempty: "sanitizeNullable v = Inr (Some s) \<Longrightarrow> s \<noteq> []"
  by (cases v rule: sanitizeNullable.cases) (auto simp: Let_def split: sum.splits if_splits)

lemma nullish_cases: "nullish a b = a \<or> nullish a b = b"
  by (cases "(a, b)" rule: nullish.cases) auto

lemma orElse_nonempty: "d \<noteq> [] \<Longrightarrow> orElse x d \<noteq> []"
  by (auto simp: orElse_def split: option.splits)

lemma slice0_nonempty: "s \<noteq> [] \<Longrightarrow> slice0 120 s \<noteq> []"
  by (cases s) (simp_all add: slice0_def)

lemma andThen_Inr: "andThen r f = Inr y \<longleftrightarrow> (\<exists>x. r = Inr x \<and> f x = Inr y)"
  by (cases r) (simp_all add: andThen_def)

lemma buildRecord_fields:
  assumes "buildRecord uuid now payload src rawText labels = Inr row"
  shows "raw_text row = rawText \<and> source row = src
         \<and> (\<exists>s0. sanitizeNullable (nullish (field payload ''summary'') (labelOf labels ''summary'')) = Inr s0
                 \<and> summary row = Some (orElse s0 (slice0 120 rawText)))"
  using assms unfolding buildRecord_def Let_def andThen_Inr by auto

lemma ingest_stored:
  assumes "row \<in> set (snd (ingest jp nb env uuid now ok request))"
  shows "\<exists>payload labels. body request = Some payload
           \<and> payloadText payload ''raw_text'' = Inr (raw_text row)
           \<and> payloadText payload ''source'' = Inr (source row)
           \<and> raw_text row \<noteq> [] \<and> source row \<noteq> []
           \<and> inferFeedbackMetadata jp nb env (source row) (raw_text row) = Inr labels
           \<and> buildRecord uuid now payload (source row) (raw_text row) labels = Inr row"
proof -
  from assms obtain payload where b: "body request = Some payload"
    by (auto simp: ingest_def split: if_splits option.splits)
  from assms b obtain src rawText where
    p: "payloadText payload ''source'' = Inr src" "payloadText payload ''raw_text'' = Inr rawText"
    and ne: "src \<noteq> []" "rawText \<noteq> []"
    and r: "andThen (inferFeedbackMetadata jp nb env src rawText) (buildRecord uuid now payload src rawText) = Inr row"
    by (auto simp: ingest_def andThen_Inr split: if_splits sum.splits prod.splits)
  from r obtain labels where
    l: "inferFeedbackMetadata jp nb env src rawText = Inr labels"
       "buildRecord uuid now payload src rawText labels = Inr row"
    by (auto simp: andThen_Inr)
  from buildRecord_fields[OF l(2)] have "raw_text row = rawText" "source row = src" by auto
  with b p ne l show ?thesis by auto
qed

text \<open>
  Claim C10: every record that \<open>POST /ingest\<close> stores has a summary that is neither
  \<open>null\<close> nor empty. Its raw text was checked to be non-empty; and when neither the
  payload nor the classifier supplies a summary that survives \<open>sanitizeNullable\<close>, the
  summary is the first 120 characters of the raw text: the raw text itself when it has at
  most 120 characters, and else its prefix of length 120.
\<close>

theorem ingested_summary_never_absent:
  assumes "row \<in> set (snd (ingest jp nb env uuid now ok request))"
  shows "raw_text row \<noteq> []
         \<and> (\<exists>s. summary row = Some s \<and> s \<noteq> [])
         \<and> (\<forall>payload labels.
               body request = Some payload
               \<and> inferFeedbackMetadata jp nb env (source row) (raw_text row) = Inr labels
               \<and> sanitizeNullable (field payload ''summary'') = Inr None
               \<and> sanitizeNullable (labelOf labels ''summary'') = Inr None
               \<longrightarrow> summary row = Some (take 120 (raw_text row))
                   \<and> (\<exists>s. summary row = Some s \<and> prefix s (raw_text row)
                            \<and> length s = min 120 (length (raw_text row))))"
proof -
  from ingest_stored[OF assms] obtain payload labels where
    b: "body request = Some payload" and ne: "raw_text row \<noteq> []"
    and l: "inferFeedbackMetadata jp nb env (source row) (raw_text row) = Inr labels"
    and r: "buildRecord uuid now payload (source row) (raw_text row) labels = Inr row"
    by blast
  from buildRecord_fields[OF r] obtain s0 where
    s0: "sanitizeNullable (nullish (field payload ''summary'') (labelOf labels ''summary'')) = Inr s0"
    and s: "summary row = Some (orElse s0 (slice0 120 (raw_text row)))"
    by blast
  have nonempty: "orElse s0 (slice0 120 (raw_text row)) \<noteq> []"
    using ne by (intro orElse_nonempty slice0_nonempty)
  have fallback: "summary row = Some (take 120 (raw_text row))"
    if "sanitizeNullable (field payload ''summary'') = Inr None"
       "sanitizeNullable (labelOf labels ''summary'') = Inr None"
  proof -
    from that nullish_cases[of "field payload ''summary''" "labelOf labels ''summary''"]
    have "sanitizeNullable (nullish (field payload ''summary'') (labelOf labels ''summary'')) = Inr None"
      by auto
    with s0 have "s0 = None" by simp
    with s show ?thesis by (simp add: orElse_def slice0_def)
  qed
  have cut: "prefix (take 120 (raw_text row)) (raw_text row)
             \<and> length (take 120 (raw_text row)) = min 120 (length (raw_text row))"
    by (simp add: take_is_prefix min.commute)
  from ne s nonempty fallback cut b l show ?thesis by auto
qed

text \<open>
  The request of the example carries a text of 149 characters between blanks, a blank
  summary, and no classifier is configured: the stored summary is the first 120 characters
  of the trimmed text, not the text.
\<close>

theorem ingested_summary_never_absent_witness:
  "(\<exists>row. row \<in> set (snd (ingest sampleParse ConstructorThrows (envWith None) ''id-1''
                               ''2026-01-02T09:00:00.000Z'' True ingestRequest))
     \<and> raw_text row = longText \<and> length (raw_text row) = 149
     \<and> summary row = Some longTextHead \<and> length longTextHead = 120
     \<and> summary row \<noteq> Some (raw_text row))"
proof -
  let ?rows = "snd (ingest sampleParse ConstructorThrows (envWith None) ''id-1''
                      ''2026-01-02T09:00:00.000Z'' True ingestRequest)"
  have n: "?rows \<noteq> []" by code_simp
  have t: "raw_text (hd ?rows) = longText" by code_simp
  have src: "source (hd ?rows) = ''email''" by code_simp
  have m: "hd ?rows \<in> set ?rows" using n by simp
  have b: "body ingestRequest = Some ingestBody" by (simp add: ingestRequest_def)
  have i: "inferFeedbackMetadata sampleParse ConstructorThrows (envWith None) ''email'' longText = Inr None"
    by (simp add: inferFeedbackMetadata_def envWith_def isSet_def)
  have p: "sanitizeNullable (field ingestBody ''summary'') = Inr None" by code_simp
  have a: "sanitizeNullable (labelOf None ''summary'') = Inr None" by (simp add: labelOf_def)
  have h: "take 120 longText = longTextHead" by code_simp
  have len: "length longText = 149" "length longTextHead = 120" by code_simp+
  from ingested_summary_never_absent[OF m] b i p a t src
  have "summary (hd ?rows) = Some (take 120 longText)" by simp
  with h have s: "summary (hd ?rows) = Some longTextHead" by simp
  have "longTextHead \<noteq> longText" using len by auto
  with m t s len show ?thesis by auto
qed

section \<open>What the classifier returns\<close>

lemma mockSentiment_allowed: "mockSentiment l \<in> set SENTIMENTS"
  by (simp add: mockSentiment_def SENTIMENTS_def)

lemma mockPriority_allowed: "fst (mockPriority l) \<in> set PRIORITIES"
  by (simp add: mockPriority_def PRIORITIES_def)

lemma mockPriority_category: "snd (mockPriority l) \<noteq> []"
  by (simp add: mockPriority_def)

lemma mockCategory_nonempty: "c \<noteq> [] \<Longrightarrow> mockCategory l c \<noteq> []"
  by (simp add: mockCategory_def Let_def)

lemma mock_fully_populated:
  "sanitizeChoice (field (mockAiInference text) ''sentiment'') SENTIMENTS \<noteq> None
   \<and> sanitizeChoice (field (mockAiInference text) ''priority'') PRIORITIES \<noteq> None
   \<and> (\<exists>c. field (mockAiInference text) ''category'' = Some (JStr c) \<and> c \<noteq> [])
   \<and> field (mockAiInference text) ''summary'' = Some (JStr (slice0 120 text))
   \<and> (\<exists>r. field (mockAiInference text) ''priority_reason'' = Some (JStr r) \<and> r \<noteq> [])"
  using mockSentiment_allowed[of "toLowerCase text"] mockPriority_allowed[of "toLowerCase text"]
    mockCategory_nonempty[OF mockPriority_category, of "toLowerCase text" "toLowerCase text"]
  by (simp add: mockAiInference_def Let_def)

text \<open>
  Claim C3, as the specification states it: when the call of the inference collaborator
  fails, the classifier returns the heuristic label set. With a binding whose call throws
  and no mock mode, the classifier returns \<open>null\<close>, which is not the heuristic label set.
\<close>

theorem failed_inference_gives_no_labels:
  "inferFeedbackMetadata sampleParse ConstructorThrows failingEnv ''email'' ''App crashes on login''
     = Inr None
   \<and> inferFeedbackMetadata sampleParse ConstructorThrows failingEnv ''email'' ''App crashes on login''
     \<noteq> Inr (Some (mockAiInference ''App crashes on login''))"
  by code_simp

text \<open>
  Claim C3, amended. With no binding and \<open>USE_MOCK_AI\<close> unset the classifier returns
  \<open>null\<close>. With \<open>USE_MOCK_AI\<close> equal to \<open>true\<close> and a non-empty text it returns the heuristic
  labels. With a binding whose call throws (and no mock mode) the error is caught and the
  classifier returns \<open>null\<close> as well: there is no fall-back to the heuristic. In all of these
  cases, and whenever a binding is present, no error leaves the classifier. The heuristic
  labels are fully populated: a sentiment and a priority of the taxonomy, a non-empty
  category and reason, and the first 120 characters of the text as the summary.
\<close>

theorem classifier_outcomes:
  "(AI env = None \<and> \<not> isSet (USE_MOCK_AI env)
      \<longrightarrow> inferFeedbackMetadata jp nb env src text = Inr None)
   \<and> (USE_MOCK_AI env = Some ''true'' \<and> text \<noteq> []
      \<longrightarrow> inferFeedbackMetadata jp nb env src text = Inr (Some (mockAiInference text)))
   \<and> (\<forall>call e. AI env = Some call \<and> USE_MOCK_AI env \<noteq> Some ''true''
         \<and> call [systemPrompt, userPrompt src text] = AiThrows e
      \<longrightarrow> inferFeedbackMetadata jp nb env src text = Inr None)
   \<and> (AI env \<noteq> None \<or> \<not> isSet (USE_MOCK_AI env) \<or> USE_MOCK_AI env = Some ''true''
      \<longrightarrow> (\<exists>labels. inferFeedbackMetadata jp nb env src text = Inr labels))
   \<and> sanitizeChoice (field (mockAiInference text) ''sentiment'') SENTIMENTS \<noteq> None
   \<and> sanitizeChoice (field (mockAiInference text) ''priority'') PRIORITIES \<noteq> None
   \<and> (\<exists>c. field (mockAiInference text) ''category'' = Some (JStr c) \<and> c \<noteq> [])
   \<and> field (mockAiInference text) ''summary'' = Some (JStr (slice0 120 text))
   \<and> (\<exists>r. field (mockAiInference text) ''priority_reason'' = Some (JStr r) \<and> r \<noteq> [])"
proof -
  have a: "AI env = None \<and> \<not> isSet (USE_MOCK_AI env)
      \<longrightarrow> inferFeedbackMetadata jp nb env src text = Inr None"
    by (simp add: inferFeedbackMetadata_def)
  have b: "USE_MOCK_AI env = Some ''true'' \<and> text \<noteq> []
      \<longrightarrow> inferFeedbackMetadata jp nb env src text = Inr (Some (mockAiInference text))"
    by (simp add: inferFeedbackMetadata_def isSet_def)
  have c: "\<forall>call e. AI env = Some call \<and> USE_MOCK_AI env \<noteq> Some ''true''
         \<and> call [systemPrompt, userPrompt src text] = AiThrows e
      \<longrightarrow> inferFeedbackMetadata jp nb env src text = Inr None"
    by (auto simp: inferFeedbackMetadata_def tryLabels_def)
  have d: "AI env \<noteq> None \<or> \<not> isSet (USE_MOCK_AI env) \<or> USE_MOCK_AI env = Some ''true''
      \<longrightarrow> (\<exists>labels. inferFeedbackMetadata jp nb env src text = Inr labels)"
    by (auto simp: inferFeedbackMetadata_def isSet_def split: option.splits)
  from a b c d mock_fully_populated[of "text"] show ?thesis by blast
qed

text \<open>The three cases on concrete environments, and a binding that answers with labels.\<close>

theorem classifier_outcomes_witness:
  "inferFeedbackMetadata sampleParse ConstructorThrows (envWith None) ''email'' outageText = Inr None
   \<and> inferFeedbackMetadata sampleParse ConstructorThrows mockEnv ''email'' outageText
       = Inr (Some (mockAiInference outageText))
   \<and> inferFeedbackMetadata sampleParse ConstructorThrows failingEnv ''email'' outageText = Inr None
   \<and> (\<exists>labels. inferFeedbackMetadata sampleParse ConstructorThrows answeringEnv ''email'' outageText
         = Inr labels)"
proof -
  have t: "outageText \<noteq> []" by (simp add: outageText_def)
  have f: "failingAI [systemPrompt, userPrompt ''email'' outageText] = AiThrows ''inference timed out''"
    by (simp add: failingAI_def)
  show ?thesis
    using classifier_outcomes[of "envWith None" sampleParse ConstructorThrows "''email''" outageText]
      classifier_outcomes[of mockEnv sampleParse ConstructorThrows "''email''" outageText]
      classifier_outcomes[of failingEnv sampleParse ConstructorThrows "''email''" outageText]
      classifier_outcomes[of answeringEnv sampleParse ConstructorThrows "''email''" outageText]
      t f
    by (simp add: envWith_def mockEnv_def failingEnv_def answeringEnv_def isSet_def)
qed

section \<open>Logging after a failed delivery\<close>

lemma sendToSlack_posts:
  "posts (snd (sendToSlack parse net env insights)) \<noteq> [] \<longleftrightarrow>
     (\<exists>url. SLACK_WEBHOOK_URL env = Some url \<and> url \<noteq> [] \<and> parse url \<noteq> None)"
  by (auto simp: sendToSlack_def Let_def split: option.splits fetch_outcome.splits)

lemma sendToSlack_fst:
  "posts (snd (sendToSlack parse net env insights)) \<noteq> [] \<Longrightarrow>
     \<exists>r. fst (sendToSlack parse net env insights) = Inr r"
  by (auto simp: sendToSlack_def Let_def split: option.splits fetch_outcome.splits if_splits)

lemma sendToSlack_no_inserts:
  "inserts (snd (sendToSlack parse net env insights)) = []
   \<and> loggedRows (snd (sendToSlack parse net env insights)) = []"
  by (auto simp: sendToSlack_def Let_def split: option.splits fetch_outcome.splits if_splits)

lemma inserts_append: "inserts (xs @ ys) = inserts xs @ inserts ys"
  by (induction xs rule: inserts.induct) auto

lemma loggedRows_append: "loggedRows (xs @ ys) = loggedRows xs @ loggedRows ys"
  by (induction xs rule: loggedRows.induct) auto


text \<open>
  Whenever a run has posted, whatever the network answered: the run returns the insights
  and issues one insert, of the row built from these insights.
\<close>

lemma run_after_post:
  assumes "posts (snd (run w env)) \<noteq> []"
  shows "\<exists>feedbackData. fetchRecentFeedback (query w) = Inr feedbackData
      \<and> fst (run w env) = Inr (generateInsights (analyzeWithAI env feedbackData))
      \<and> inserts (snd (run w env))
          = [logRow (nowISO w) (stringify w) (generateInsights (analyzeWithAI env feedbackData))]
      \<and> loggedRows (snd (run w env))
          = (if accepts w (logRow (nowISO w) (stringify w) (generateInsights (analyzeWithAI env feedbackData)))
             then [logRow (nowISO w) (stringify w) (generateInsights (analyzeWithAI env feedbackData))]
             else [])"
proof (cases "fetchRecentFeedback (query w)")
  case (Inl e)
  with assms show ?thesis by (simp add: run_def)
next
  case (Inr feedbackData)
  let ?ins = "generateInsights (analyzeWithAI env feedbackData)"
  let ?sent = "sendToSlack (parseURL w) (fetch w) env ?ins"
  show ?thesis
  proof (cases "fst ?sent")
    case (Inl e)
    then have "posts (snd ?sent) = []"
      using sendToSlack_fst[of "parseURL w" "fetch w" env ?ins] by auto
    with Inr Inl assms show ?thesis by (simp add: run_def Let_def)
  next
    case (Inr r)
    have "run w env = (Inr ?ins, snd ?sent @ logAnalysis (nowISO w) (stringify w) (accepts w) ?ins)"
      using \<open>fetchRecentFeedback (query w) = Inr feedbackData\<close> Inr
      by (simp add: run_def Let_def)
    then show ?thesis
      using \<open>fetchRecentFeedback (query w) = Inr feedbackData\<close>
        sendToSlack_no_inserts[of "parseURL w" "fetch w" env ?ins]
      by (simp add: inserts_append loggedRows_append logAnalysis_def Let_def)
  qed
qed

text \<open>
  The run ends before the post, and without an insert, only when the configured address
  does not parse: \<open>new URL\<close> throws outside the \<open>try\<close>. The scheduled handler, which builds
  no address, always goes on to its one insert.
\<close>

lemma unparsed_webhook_ends_run:
  assumes "fetchRecentFeedback (query w) = Inr feedbackData"
      and "SLACK_WEBHOOK_URL env = Some url" and "url \<noteq> []" and "parseURL w url = None"
  shows "run w env = (Inl (TypeError ''Invalid URL''), [])"
  using assms by (simp add: run_def sendToSlack_def Let_def)

lemma scheduled_logs_after_post:
  assumes "query w = QueryRows (Some feedbackData)" and "feedbackData \<noteq> []"
  shows "inserts (handleScheduled w env)
           = [logRow (nowISO w) (stringify w) (analyzeFeedback env feedbackData)]"
  using assms
  by (auto simp: handleScheduled_def Let_def inserts_append logAnalysis_def sendToSlackScheduled_def
      split: option.splits)

text \<open>
  Claim C4: if the post to the notification channel throws or is answered with a status
  that is not ok, the run still returns its insights and issues exactly one insert into
  the log, whose \<open>data\<close> is the serialisation of the insights computed before the post;
  the row is in the table whenever the store accepts it.
\<close>

theorem failed_delivery_still_logged:
  assumes "(url, message) \<in> set (posts (snd (run w env)))"
      and "deliveryFailed (fetch w url message)"
  shows "\<exists>feedbackData insights row.
           fetchRecentFeedback (query w) = Inr feedbackData
         \<and> insights = generateInsights (analyzeWithAI env feedbackData)
         \<and> fst (run w env) = Inr insights
         \<and> inserts (snd (run w env)) = [row]
         \<and> data row = stringify w insights
         \<and> total_feedback row = totalFeedback insights
         \<and> loggedRows (snd (run w env)) = (if accepts w row then [row] else [])"
proof -
  from assms(1) have "posts (snd (run w env)) \<noteq> []" by auto
  from run_after_post[OF this] obtain feedbackData where
    f: "fetchRecentFeedback (query w) = Inr feedbackData"
    and r: "fst (run w env) = Inr (generateInsights (analyzeWithAI env feedbackData))"
    and i: "inserts (snd (run w env))
          = [logRow (nowISO w) (stringify w) (generateInsights (analyzeWithAI env feedbackData))]"
    and l: "loggedRows (snd (run w env))
          = (if accepts w (logRow (nowISO w) (stringify w) (generateInsights (analyzeWithAI env feedbackData)))
             then [logRow (nowISO w) (stringify w) (generateInsights (analyzeWithAI env feedbackData))]
             else [])"
    by blast
  let ?ins = "generateInsights (analyzeWithAI env feedbackData)"
  let ?row = "logRow (nowISO w) (stringify w) ?ins"
  have "data ?row = stringify w ?ins" "total_feedback ?row = totalFeedback ?ins"
    by (simp_all add: logRow_def)
  with f r i l show ?thesis by blast
qed

text \<open>A run over one record whose post throws, and one whose post is answered with 500.\<close>

theorem failed_delivery_still_logged_witness:
  "(\<exists>row. loggedRows (snd (run (world (QueryRows (Some [sampleRecord])) unreachable)
                               (envWith (Some hookURL)))) = [row] \<and> data row = ''1'')
   \<and> (\<exists>row. loggedRows (snd (run (world (QueryRows (Some [sampleRecord])) serverError)
                               (envWith (Some hookURL)))) = [row] \<and> data row = ''1'')"
proof -
  let ?w1 = "world (QueryRows (Some [sampleRecord])) unreachable :: AnalysisResult World"
  let ?w2 = "world (QueryRows (Some [sampleRecord])) serverError :: AnalysisResult World"
  let ?env = "envWith (Some hookURL)"
  have p1: "posts (snd (run ?w1 ?env)) \<noteq> []" by code_simp
  have p2: "posts (snd (run ?w2 ?env)) \<noteq> []" by code_simp
  have m1: "(fst (hd (posts (snd (run ?w1 ?env)))), snd (hd (posts (snd (run ?w1 ?env)))))
              \<in> set (posts (snd (run ?w1 ?env)))"
    using p1 by simp
  have m2: "(fst (hd (posts (snd (run ?w2 ?env)))), snd (hd (posts (snd (run ?w2 ?env)))))
              \<in> set (posts (snd (run ?w2 ?env)))"
    using p2 by simp
  have d1: "deliveryFailed (fetch ?w1 u m)" for u m
    by (simp add: world_def unreachable_def deliveryFailed_def)
  have d2: "deliveryFailed (fetch ?w2 u m)" for u m
    by (simp add: world_def serverError_def deliveryFailed_def responseOk_def)
  have f: "fetchRecentFeedback (query (world (QueryRows (Some [sampleRecord])) net :: AnalysisResult World)) = Inr [sampleRecord]" for net
    by (simp add: world_def fetchRecentFeedback_def)
  have t: "totalOnly (generateInsights (analyzeWithAI ?env [sampleRecord])) = ''1''"
    by code_simp
  have s: "stringify (world q net :: AnalysisResult World) = totalOnly" for q net
    by (simp add: world_def)
  have a: "accepts (world q net :: AnalysisResult World) row" for q net row
    by (simp add: world_def acceptAll_def)
  from failed_delivery_still_logged[OF m1 d1] obtain fd1 row1 where
    "fetchRecentFeedback (query ?w1) = Inr fd1"
    "loggedRows (snd (run ?w1 ?env)) = (if accepts ?w1 row1 then [row1] else [])"
    "data row1 = stringify ?w1 (generateInsights (analyzeWithAI ?env fd1))"
    by blast
  with f t s a have c1: "loggedRows (snd (run ?w1 ?env)) = [row1] \<and> data row1 = ''1''"
    by simp
  from failed_delivery_still_logged[OF m2 d2] obtain fd2 row2 where
    "fetchRecentFeedback (query ?w2) = Inr fd2"
    "loggedRows (snd (run ?w2 ?env)) = (if accepts ?w2 row2 then [row2] else [])"
    "data row2 = stringify ?w2 (generateInsights (analyzeWithAI ?env fd2))"
    by blast
  with f t s a have c2: "loggedRows (snd (run ?w2 ?env)) = [row2] \<and> data row2 = ''1''"
    by simp
  from c1 c2 show ?thesis by blast
qed

section \<open>A day without feedback\<close>

lemma generateInsights_empty: "generateInsights (emptyAnalysis 0) = emptyAnalysis 0"
  by (simp add: generateInsights_def emptyAnalysis_def)

lemma countOf_empty:
  "countOf [] ''negative'' = Num 0" "countOf [] ''P0'' = Num 0" "countOf [] ''P1'' = Num 0"
  by (simp_all add: countOf_def getProp_def inheritedText_def protoFunctions_def)

lemma sendToSlack_empty:
  "sendToSlack parse net env (emptyAnalysis 0) =
     (case SLACK_WEBHOOK_URL env of
        None \<Rightarrow> (Inr NotConfigured, [])
      | Some url \<Rightarrow>
         if url = [] then (Inr NotConfigured, [])
         else (case parse url of
                 None \<Rightarrow> (Inl (TypeError ''Invalid URL''), [])
               | Some u \<Rightarrow>
                  (case net url [Header, Metrics 0 (Num 0) (Num 0) (Num 0), Divider,
                                 DashboardButton (origin u @ ''/dashboard'')] of
                     FetchStatus status \<Rightarrow> Inr (Answered (responseOk status) status)
                   | FetchThrows e \<Rightarrow> Inr (Failed e),
                   [Post url [Header, Metrics 0 (Num 0) (Num 0) (Num 0), Divider,
                              DashboardButton (origin u @ ''/dashboard'')]])))"
  by (simp add: sendToSlack_def openingBlocks_def urgentBlocks_def emptyAnalysis_def countOf_empty Let_def
      split: option.splits fetch_outcome.splits)

text \<open>
  Claim C2, as the specification states it: on a day with no feedback the notification
  collaborator is not called and exactly one log entry is written. With a webhook
  configured, the workflow posts its message of zeros, and the scheduled handler makes
  no insert at all.
\<close>

theorem zero_records_still_posted_or_unlogged:
  "query (world (QueryRows (Some [])) delivered :: AnalysisResult World) = QueryRows (Some [])
   \<and> posts (snd (run (world (QueryRows (Some [])) delivered) (envWith (Some hookURL))))
       = [(hookURL, [Header, Metrics 0 (Num 0) (Num 0) (Num 0), Divider,
                     DashboardButton ''https://hooks.slack.com/dashboard''])]
   \<and> inserts (handleScheduled (world (QueryRows (Some [])) delivered) (envWith (Some hookURL))) = []"
  by code_simp

text \<open>
  Claim C2, amended. When the query for the last 24 hours gives no record, the workflow
  computes the analysis of zeros (\<open>totalFeedback = 0\<close>) and still runs its delivery step:
  with no webhook configured it posts nothing, with a configured webhook whose address
  parses it posts the message of zeros; in both cases it then issues exactly one insert
  into the log, of that analysis. The scheduled handler returns at once instead: no post
  and no insert.
\<close>

theorem empty_day:
  assumes "fetchRecentFeedback (query w) = Inr []"
      and "query ws = QueryRows None \<or> query ws = QueryRows (Some [])"
  shows "totalFeedback (emptyAnalysis 0) = 0
     \<and> (\<not> isSet (SLACK_WEBHOOK_URL env) \<longrightarrow>
          run w env = (Inr (emptyAnalysis 0),
                       [Insert (logRow (nowISO w) (stringify w) (emptyAnalysis 0))
                          (accepts w (logRow (nowISO w) (stringify w) (emptyAnalysis 0)))]))
     \<and> (\<forall>url u. SLACK_WEBHOOK_URL env = Some url \<and> url \<noteq> [] \<and> parseURL w url = Some u \<longrightarrow>
          run w env = (Inr (emptyAnalysis 0),
                       [Post url [Header, Metrics 0 (Num 0) (Num 0) (Num 0), Divider,
                                  DashboardButton (origin u @ ''/dashboard'')],
                        Insert (logRow (nowISO w) (stringify w) (emptyAnalysis 0))
                          (accepts w (logRow (nowISO w) (stringify w) (emptyAnalysis 0)))]))
     \<and> handleScheduled ws env = []"
proof -
  have a: "analyzeWithAI env [] = emptyAnalysis 0" by (simp add: analyzeWithAI_def)
  have r: "run w env =
     (let sent = sendToSlack (parseURL w) (fetch w) env (emptyAnalysis 0)
      in case fst sent of
           Inl e \<Rightarrow> (Inl e, snd sent)
         | Inr slackResult \<Rightarrow>
             (Inr (emptyAnalysis 0),
              snd sent @ logAnalysis (nowISO w) (stringify w) (accepts w) (emptyAnalysis 0)))"
    using assms(1) by (simp add: run_def a generateInsights_empty Let_def cong: sum.case_cong)
  have c1: "\<not> isSet (SLACK_WEBHOOK_URL env) \<longrightarrow>
          run w env = (Inr (emptyAnalysis 0),
                       [Insert (logRow (nowISO w) (stringify w) (emptyAnalysis 0))
                          (accepts w (logRow (nowISO w) (stringify w) (emptyAnalysis 0)))])"
    unfolding r sendToSlack_empty
    by (auto simp: isSet_def logAnalysis_def Let_def split: option.splits)
  have c2: "\<forall>url u. SLACK_WEBHOOK_URL env = Some url \<and> url \<noteq> [] \<and> parseURL w url = Some u \<longrightarrow>
          run w env = (Inr (emptyAnalysis 0),
                       [Post url [Header, Metrics 0 (Num 0) (Num 0) (Num 0), Divider,
                                  DashboardButton (origin u @ ''/dashboard'')],
                        Insert (logRow (nowISO w) (stringify w) (emptyAnalysis 0))
                          (accepts w (logRow (nowISO w) (stringify w) (emptyAnalysis 0)))])"
    unfolding r sendToSlack_empty
    by (auto simp: logAnalysis_def Let_def split: fetch_outcome.splits)
  have c3: "handleScheduled ws env = []"
    using assms(2) by (auto simp: handleScheduled_def)
  have c0: "totalFeedback (emptyAnalysis 0) = 0" by (simp add: emptyAnalysis_def)
  from c0 c1 c2 c3 show ?thesis by blast
qed

text \<open>The three cases on the example world, whose query gives an empty list.\<close>

theorem empty_day_witness:
  "run (world (QueryRows (Some [])) delivered) (envWith (Some hookURL))
     = (Inr (emptyAnalysis 0),
        [Post hookURL [Header, Metrics 0 (Num 0) (Num 0) (Num 0), Divider,
                       DashboardButton ''https://hooks.slack.com/dashboard''],
         Insert \<lparr>timestamp = ''2026-01-02T09:00:00.000Z'', total_feedback = 0,
                  negative_count = Num 0, p0_count = Num 0, p1_count = Num 0, data = ''0''\<rparr> True])
   \<and> run (world (QueryRows (Some [])) delivered) (envWith None)
     = (Inr (emptyAnalysis 0),
        [Insert \<lparr>timestamp = ''2026-01-02T09:00:00.000Z'', total_feedback = 0,
                  negative_count = Num 0, p0_count = Num 0, p1_count = Num 0, data = ''0''\<rparr> True])
   \<and> handleScheduled (world (QueryRows (Some [])) delivered) (envWith (Some hookURL)) = []"
proof -
  let ?w = "world (QueryRows (Some [])) delivered :: AnalysisResult World"
  let ?ws = "world (QueryRows (Some [])) delivered :: ScheduledAnalysis World"
  have q: "fetchRecentFeedback (query ?w) = Inr []"
    by (simp add: world_def fetchRecentFeedback_def)
  have qs: "query ?ws = QueryRows None \<or> query ?ws = QueryRows (Some [])"
    by (simp add: world_def)
  have row: "logRow (nowISO ?w) (stringify ?w) (emptyAnalysis 0)
      = \<lparr>timestamp = ''2026-01-02T09:00:00.000Z'', total_feedback = 0,
                  negative_count = Num 0, p0_count = Num 0, p1_count = Num 0, data = ''0''\<rparr>"
    by code_simp
  have u: "parseURL ?w hookURL = Some \<lparr>hostname = ''hooks.slack.com'', pathname = ''/services/T000/B000/XXXX'',
                 origin = ''https://hooks.slack.com''\<rparr>"
    by (simp add: world_def knownURLs_def)
  have h: "hookURL \<noteq> []" by (simp add: hookURL_def)
  have acc: "accepts ?w r" for r by (simp add: world_def acceptAll_def)
  from empty_day[OF q qs, of "envWith (Some hookURL)"] u h row acc
  have 1: "run ?w (envWith (Some hookURL))
     = (Inr (emptyAnalysis 0),
        [Post hookURL [Header, Metrics 0 (Num 0) (Num 0) (Num 0), Divider,
                       DashboardButton ''https://hooks.slack.com/dashboard''],
         Insert \<lparr>timestamp = ''2026-01-02T09:00:00.000Z'', total_feedback = 0,
                  negative_count = Num 0, p0_count = Num 0, p1_count = Num 0, data = ''0''\<rparr> True])"
    and 3: "handleScheduled ?ws (envWith (Some hookURL)) = []"
    by (simp_all add: envWith_def)
  from empty_day[OF q qs, of "envWith None"] row acc
  have 2: "run ?w (envWith None)
     = (Inr (emptyAnalysis 0),
        [Insert \<lparr>timestamp = ''2026-01-02T09:00:00.000Z'', total_feedback = 0,
                  negative_count = Num 0, p0_count = Num 0, p1_count = Num 0, data = ''0''\<rparr> True])"
    by (simp add: envWith_def isSet_def)
  from 1 2 3 show ?thesis by blast
qed

section \<open>Urgent items\<close>



















section \<open>The address of the webhook\<close>

text \<open>
  Claim C5, as the specification states it: a delivery is attempted only when the webhook
  address has the host \<open>hooks.slack.com\<close> and a path that begins with \<open>/services/\<close>. With
  the address \<open>https://example.com/hook\<close> configured, which \<open>isValidSlackWebhook\<close> rejects,
  both the workflow and the scheduled handler post to it.
\<close>

theorem other_host_still_posted:
  "\<not> isValidSlackWebhook knownURLs otherURL
   \<and> map fst (posts (snd (run (world (QueryRows (Some [sampleRecord])) delivered)
                            (envWith (Some otherURL))))) = [otherURL]
   \<and> map fst (posts (handleScheduled (world (QueryRows (Some [sampleRecord])) delivered)
                       (envWith (Some otherURL)))) = [otherURL]"
  by code_simp

text \<open>
  Claim C5, amended. \<open>isValidSlackWebhook\<close> accepts exactly the addresses that parse with
  the host \<open>hooks.slack.com\<close> and a path beginning with \<open>/services/\<close>, but no delivery path
  calls it. The workflow posts exactly when a webhook address is configured (not empty)
  and parses as an address, and then to that address; the scheduled handler, once called
  with an address, posts to it.
\<close>

theorem webhook_shape_not_consulted:
  "(isValidSlackWebhook parse url \<longleftrightarrow>
      (\<exists>p. parse url = Some p \<and> hostname p = ''hooks.slack.com'' \<and> prefix ''/services/'' (pathname p)))
   \<and> (posts (snd (sendToSlack parse net env insights)) \<noteq> [] \<longleftrightarrow>
        (\<exists>hook. SLACK_WEBHOOK_URL env = Some hook \<and> hook \<noteq> [] \<and> parse hook \<noteq> None))
   \<and> (\<forall>hook message. (hook, message) \<in> set (posts (snd (sendToSlack parse net env insights)))
        \<longrightarrow> SLACK_WEBHOOK_URL env = Some hook)
   \<and> map fst (posts (sendToSlackScheduled net analysis url feedbackData)) = [url]"
proof -
  have a: "isValidSlackWebhook parse url \<longleftrightarrow>
      (\<exists>p. parse url = Some p \<and> hostname p = ''hooks.slack.com'' \<and> prefix ''/services/'' (pathname p))"
    by (auto simp: isValidSlackWebhook_def startsWith_def split: option.splits)
  have b: "posts (snd (sendToSlack parse net env insights)) \<noteq> [] \<longleftrightarrow>
        (\<exists>hook. SLACK_WEBHOOK_URL env = Some hook \<and> hook \<noteq> [] \<and> parse hook \<noteq> None)"
    by (auto simp: sendToSlack_def Let_def split: option.splits fetch_outcome.splits)
  have c: "\<forall>hook message. (hook, message) \<in> set (posts (snd (sendToSlack parse net env insights)))
        \<longrightarrow> SLACK_WEBHOOK_URL env = Some hook"
    by (auto simp: sendToSlack_def Let_def split: option.splits fetch_outcome.splits if_splits)
  have d: "map fst (posts (sendToSlackScheduled net analysis url feedbackData)) = [url]"
    by (simp add: sendToSlackScheduled_def Let_def)
  from a b c d show ?thesis by blast
qed

text \<open>
  The two example addresses under the validator, and the workflow's delivery with the
  address of another host and with a text that is no address.
\<close>

theorem webhook_shape_not_consulted_witness:
  "isValidSlackWebhook knownURLs hookURL \<and> \<not> isValidSlackWebhook knownURLs otherURL
   \<and> posts (snd (sendToSlack knownURLs delivered (envWith (Some otherURL)) (emptyAnalysis 0))) \<noteq> []
   \<and> posts (snd (sendToSlack knownURLs delivered (envWith (Some ''nonsense'')) (emptyAnalysis 0))) = []"
proof -
  have o: "otherURL \<noteq> []" "knownURLs otherURL \<noteq> None" "knownURLs ''nonsense'' = None"
    "hostname (the (knownURLs otherURL)) = ''example.com''"
    by (simp_all add: otherURL_def knownURLs_def hookURL_def)
  have h: "knownURLs hookURL = Some \<lparr>hostname = ''hooks.slack.com'', pathname = ''/services/T000/B000/XXXX'',
                 origin = ''https://hooks.slack.com''\<rparr>"
    by (simp add: knownURLs_def)
  from webhook_shape_not_consulted[of knownURLs hookURL delivered "envWith (Some otherURL)" "emptyAnalysis 0"]
       webhook_shape_not_consulted[of knownURLs otherURL delivered "envWith (Some ''nonsense'')" "emptyAnalysis 0"]
       o h
  show ?thesis by (auto simp: envWith_def)
qed

section \<open>The ranking of keywords\<close>

lemma set_firstSeen [simp]: "set (firstSeen xs) = set xs"
  by (induction xs) auto

lemma distinct_firstSeen [simp]: "distinct (firstSeen xs)"
  by (induction xs) auto

lemma firstSeen_snoc:
  "firstSeen (xs @ [w]) = (if w \<in> set xs then firstSeen xs else firstSeen xs @ [w])"
  by (induction xs) auto

lemma firstSeen_order:
  "sorted_wrt (\<lambda>a b. firstIndex xs a < firstIndex xs b) (firstSeen xs)"
proof (induction xs)
  case Nil
  show ?case by simp
next
  case (Cons x xs)
  have "sorted_wrt (\<lambda>a b. firstIndex xs a < firstIndex xs b) (filter (\<lambda>y. y \<noteq> x) (firstSeen xs))"
    using Cons.IH by (rule sorted_wrt_filter)
  then have "sorted_wrt (\<lambda>a b. firstIndex (x # xs) a < firstIndex (x # xs) b)
               (filter (\<lambda>y. y \<noteq> x) (firstSeen xs))"
    by (rule sorted_wrt_mono_rel[rotated]) (auto simp: firstIndex_def)
  then show ?case by (auto simp: firstIndex_def)
qed

lemma countWord_entries:
  "distinct ks \<Longrightarrow>
     countWord (map (\<lambda>v. (v, c v)) ks) w =
       (if w \<in> set ks then map (\<lambda>v. (v, if v = w then c v + 1 else c v)) ks
        else map (\<lambda>v. (v, c v)) ks @ [(w, 1)])"
  by (induction ks) auto

lemma wordFreq_entries:
  "foldl countWord [] toks = map (\<lambda>w. (w, count_list toks w)) (firstSeen toks)"
proof (induction toks rule: rev_induct)
  case Nil
  show ?case by simp
next
  case (snoc w toks)
  have "foldl countWord [] (toks @ [w]) = countWord (map (\<lambda>v. (v, count_list toks v)) (firstSeen toks)) w"
    by (simp add: snoc.IH)
  also have "\<dots> = map (\<lambda>v. (v, count_list (toks @ [w]) v)) (firstSeen (toks @ [w]))"
    by (auto simp: countWord_entries firstSeen_snoc count_list_0_iff)
  finally show ?case .
qed

lemma statsStep_words:
  "snd (foldl (statsStep dp ago) acc rs) = foldl countWord (snd acc) (concat (map recordWords rs))"
  by (induction rs arbitrary: acc) (simp_all add: statsStep_def Let_def)

lemma topWords_apiStats:
  "topWords (apiStats dp now rs) = rankWords (foldl countWord [] (keywordTokens rs))"
  by (simp add: apiStats_def Let_def statsStep_words keywordTokens_def)

lemma topWords_refines: "topWords (apiStats dp now rs) = rankedKeywords rs"
  by (simp add: topWords_apiStats rankedKeywords_def rankWords_def byCountDesc_def wordFreq_entries Let_def)

lemma insort_lex:
  assumes "sorted_wrt (\<lambda>a b. f a < f b \<or> (f a = f b \<and> R a b)) ys"
      and "\<forall>y\<in>set ys. R x y"
  shows "sorted_wrt (\<lambda>a b. f a < f b \<or> (f a = f b \<and> R a b)) (insort_key f x ys)"
  using assms
proof (induction ys)
  case Nil
  then show ?case by simp
next
  case (Cons y ys)
  show ?case
  proof (cases "f x \<le> f y")
    case True
    have "f x < f z \<or> (f x = f z \<and> R x z)" if "z \<in> set (y # ys)" for z
    proof -
      have "f y \<le> f z" using that Cons.prems(1) by auto
      with True Cons.prems(2) that show ?thesis by force
    qed
    with True Cons.prems show ?thesis by auto
  next
    case False
    with Cons show ?thesis by (auto simp: set_insort_key)
  qed
qed

lemma sort_key_lex:
  "sorted_wrt R xs \<Longrightarrow>
     sorted_wrt (\<lambda>a b. f a < f b \<or> (f a = f b \<and> R a b)) (sort_key f xs)"
proof (induction xs)
  case Nil
  show ?case by simp
next
  case (Cons x xs)
  then have "sorted_wrt (\<lambda>a b. f a < f b \<or> (f a = f b \<and> R a b)) (sort_key f xs)"
    and "\<forall>y\<in>set (sort_key f xs). R x y"
    by auto
  then show ?case by (simp add: insort_lex)
qed

lemma entries_order:
  "sorted_wrt (\<lambda>a b. firstIndex toks (fst a) < firstIndex toks (fst b))
     (map (\<lambda>w. (w, c w)) (firstSeen toks))"
  using firstSeen_order[of toks] by (simp add: sorted_wrt_map)

lemma rankedKeywords_order: "sorted_wrt (rankOrder (keywordTokens rs)) (rankedKeywords rs)"
proof -
  let ?toks = "keywordTokens rs"
  let ?E = "map (\<lambda>w. (w, count_list ?toks w)) (firstSeen ?toks)"
  have "sorted_wrt (\<lambda>a b. - int (snd a) < - int (snd b)
            \<or> (- int (snd a) = - int (snd b) \<and> firstIndex ?toks (fst a) < firstIndex ?toks (fst b)))
          (sort_key (\<lambda>e. - int (snd e)) ?E)"
    by (rule sort_key_lex) (rule entries_order)
  then have "sorted_wrt (rankOrder ?toks) (sort_key (\<lambda>e. - int (snd e)) ?E)"
    by (rule sorted_wrt_mono_rel[rotated]) (auto simp: rankOrder_def)
  then show ?thesis
    by (simp add: rankedKeywords_def Let_def sorted_wrt_take)
qed

lemma recordWords_shape: "w \<in> set (recordWords r) \<Longrightarrow> isKeywordShape w \<and> w \<notin> set stopwords"
  by (auto simp: recordWords_def matchWords_def)

lemma keywordTokens_shape: "w \<in> set (keywordTokens rs) \<Longrightarrow> isKeywordShape w \<and> w \<notin> set stopwords"
  by (auto simp: keywordTokens_def dest: recordWords_shape)

lemma count_list_pos: "x \<in> set xs \<Longrightarrow> 0 < count_list xs x"
  using count_list_0_iff[of xs x] by auto

lemma rankedKeywords_entries:
  assumes "e \<in> set (rankedKeywords rs)"
  shows "fst e \<in> set (keywordTokens rs) \<and> snd e = count_list (keywordTokens rs) (fst e) \<and> 0 < snd e"
proof -
  from assms have "e \<in> set (map (\<lambda>w. (w, count_list (keywordTokens rs) w)) (firstSeen (keywordTokens rs)))"
    by (auto simp: rankedKeywords_def Let_def dest: in_set_takeD)
  then show ?thesis by (auto simp: count_list_pos)
qed

lemma rankedKeywords_length:
  "length (rankedKeywords rs) = min 50 (card (set (keywordTokens rs)))"
proof -
  have "length (firstSeen (keywordTokens rs)) = card (set (keywordTokens rs))"
    using distinct_card[of "firstSeen (keywordTokens rs)"] by simp
  then show ?thesis by (simp add: rankedKeywords_def Let_def min.commute)
qed

text \<open>
  Claim C9: keyword extraction is a function of the record list alone (two runs, at any
  two instants, give the same list); it takes the summary if present and else the raw
  text, lower-cased, and keeps the alphabetic tokens of at least three letters that are no
  stopwords; the list pairs each kept word with the number of its occurrences, is sorted
  by that number, largest first, with ties in the order of first occurrence, and has at
  most 50 entries.
\<close>

theorem keyword_ranking:
  "topWords (apiStats dp now rs) = rankedKeywords rs
   \<and> topWords (apiStats dp' now' rs) = topWords (apiStats dp now rs)
   \<and> length (topWords (apiStats dp now rs)) = min 50 (card (set (keywordTokens rs)))
   \<and> sorted_wrt (rankOrder (keywordTokens rs)) (topWords (apiStats dp now rs))
   \<and> (\<forall>e \<in> set (topWords (apiStats dp now rs)).
         isKeywordShape (fst e) \<and> fst e \<notin> set stopwords
         \<and> snd e = count_list (keywordTokens rs) (fst e) \<and> 0 < snd e)"
  using rankedKeywords_order[of rs] rankedKeywords_length[of rs]
    rankedKeywords_entries[of _ rs] keywordTokens_shape[of _ rs]
  by (auto simp: topWords_refines)

text \<open>
  Two records: \<open>export\<close> and \<open>fails\<close> occur twice and keep the order in which they were
  first seen; \<open>the\<close> is a stopword, \<open>is\<close> is too short, \<open>export_csv\<close> is no alphabetic token.
\<close>

theorem keyword_ranking_witness:
  "topWords (apiStats knownDates 1767300000000 keywordRecords)
     = [(''export'', 2), (''fails'', 2), (''slow'', 1), (''login'', 1), (''too'', 1)]
   \<and> isKeywordShape ''export'' \<and> ''export'' \<notin> set stopwords
   \<and> count_list (keywordTokens keywordRecords) ''export'' = 2"
proof -
  let ?top = "topWords (apiStats knownDates 1767300000000 keywordRecords)"
  have e: "rankedKeywords keywordRecords
     = [(''export'', 2), (''fails'', 2), (''slow'', 1), (''login'', 1), (''too'', 1)]"
    by code_simp
  note k = keyword_ranking[of knownDates 1767300000000 keywordRecords knownDates 1767300000000]
  from k e have t: "?top = [(''export'', 2), (''fails'', 2), (''slow'', 1), (''login'', 1), (''too'', 1)]"
    by simp
  from k have b: "\<forall>e\<in>set ?top. isKeywordShape (fst e) \<and> fst e \<notin> set stopwords
         \<and> snd e = count_list (keywordTokens keywordRecords) (fst e) \<and> 0 < snd e"
    by blast
  have "(''export'', 2) \<in> set ?top" using t by simp
  from bspec[OF b this] t show ?thesis by simp
qed

section \<open>Distributions, totals and the seven-day count\<close>

lemma putOwn_sum:
  assumes "sumValues obj = Some n" and "ownKey k"
  shows "sumValues (putOwn obj k (plusOne (getProp obj k))) = Some (Suc n)"
  using assms
proof (induction obj arbitrary: n)
  case Nil
  then show ?case by (simp add: getProp_def ownKey_def)
next
  case (Cons p obj)
  obtain k' v' where p: "p = (k', v')" by (cases p)
  from Cons.prems(1) p obtain m n' where v: "v' = Num m" and s: "sumValues obj = Some n'" and n: "n = m + n'"
    by (cases v') auto
  show ?case
  proof (cases "k' = k")
    case True
    with p v s n show ?thesis by (simp add: getProp_def)
  next
    case False
    then have "getProp (p # obj) k = getProp obj k" by (simp add: p getProp_def)
    with False p v s n Cons.IH[OF s Cons.prems(2)] show ?thesis by simp
  qed
qed

lemma bump_sum: "sumValues obj = Some n \<Longrightarrow> ownKey k \<Longrightarrow> sumValues (bump obj k) = Some (Suc n)"
  by (auto simp: bump_def setProp_def putOwn_sum ownKey_def inheritedText_def)

lemma bumps_sum:
  "sumValues obj = Some n \<Longrightarrow> \<forall>k\<in>set ks. ownKey k \<Longrightarrow>
     sumValues (foldl bump obj ks) = Some (n + length ks)"
  by (induction ks arbitrary: obj n) (simp_all add: bump_sum)

lemma statsStep_maps:
  "byPriority (fst (foldl (statsStep dp ago) acc rs)) = foldl bump (byPriority (fst acc)) (map priorityKey rs)"
  "bySentiment (fst (foldl (statsStep dp ago) acc rs)) = foldl bump (bySentiment (fst acc)) (map sentimentKey rs)"
  "byCategory (fst (foldl (statsStep dp ago) acc rs)) = foldl bump (byCategory (fst acc)) (map categoryKey rs)"
  by (induction rs arbitrary: acc; simp add: statsStep_def Let_def)+

lemma statsStep_counts:
  "total (fst (foldl (statsStep dp ago) acc rs)) = total (fst acc)"
  "last7Days (fst (foldl (statsStep dp ago) acc rs))
     = last7Days (fst acc) + length (filter (isRecent dp ago) rs)"
  by (induction rs arbitrary: acc; simp add: statsStep_def Let_def)+

lemma apiStats_maps:
  "byPriority (apiStats dp now rs) = foldl bump [] (map priorityKey rs)"
  "bySentiment (apiStats dp now rs) = foldl bump [] (map sentimentKey rs)"
  "byCategory (apiStats dp now rs) = foldl bump [] (map categoryKey rs)"
  by (simp_all add: apiStats_def Let_def statsStep_maps)

lemma apiStats_counts:
  "total (apiStats dp now rs) = length rs"
  "last7Days (apiStats dp now rs) = length (filter (isRecent dp (now - 604800000)) rs)"
  by (simp_all add: apiStats_def Let_def statsStep_counts)

lemma analyzeStep_maps:
  "byPriority (fst (foldl analyzeStep acc rs)) = foldl bump (byPriority (fst acc)) (map priorityKey rs)"
  "bySentiment (fst (foldl analyzeStep acc rs)) = foldl bump (bySentiment (fst acc)) (map sentimentKey rs)"
  "byCategory (fst (foldl analyzeStep acc rs)) = foldl bump (byCategory (fst acc)) (map categoryKey rs)"
  "totalFeedback (fst (foldl analyzeStep acc rs)) = totalFeedback (fst acc)"
  by (induction rs arbitrary: acc; simp add: analyzeStep_def Let_def)+

lemma analyzeWithAI_maps:
  "byPriority (analyzeWithAI env rs) = foldl bump [] (map priorityKey rs)"
  "bySentiment (analyzeWithAI env rs) = foldl bump [] (map sentimentKey rs)"
  "byCategory (analyzeWithAI env rs) = foldl bump [] (map categoryKey rs)"
  "totalFeedback (analyzeWithAI env rs) = length rs"
  by (simp_all add: analyzeWithAI_def Let_def analyzeStep_maps emptyAnalysis_def)

lemma feedbackStep_maps:
  "byPriority (fst (foldl feedbackStep acc rs)) = foldl bump (byPriority (fst acc)) (map priorityKey rs)"
  "bySentiment (fst (foldl feedbackStep acc rs)) = foldl bump (bySentiment (fst acc)) (map sentimentKey rs)"
  "byCategory (fst (foldl feedbackStep acc rs)) = foldl bump (byCategory (fst acc)) (map categoryKey rs)"
  "totalFeedback (fst (foldl feedbackStep acc rs)) = totalFeedback (fst acc)"
  by (induction rs arbitrary: acc; simp add: feedbackStep_def Let_def)+

lemma analyzeFeedback_maps:
  "byPriority (analyzeFeedback env rs) = foldl bump [] (map priorityKey rs)"
  "bySentiment (analyzeFeedback env rs) = foldl bump [] (map sentimentKey rs)"
  "byCategory (analyzeFeedback env rs) = foldl bump [] (map categoryKey rs)"
  "totalFeedback (analyzeFeedback env rs) = length rs"
  by (simp_all add: analyzeFeedback_def Let_def feedbackStep_maps)

text \<open>
  When no key of any record names a member of \<open>Object.prototype\<close>, each of the three
  distributions sums to the number of records, in the statistics endpoint, in the workflow
  and in the scheduled handler.
\<close>

lemma distribution_sums_on_own_keys:
  assumes "\<forall>r\<in>set rs. ownKeys r"
  shows "sumValues (byPriority (apiStats dp now rs)) = Some (total (apiStats dp now rs))"
    and "sumValues (bySentiment (apiStats dp now rs)) = Some (total (apiStats dp now rs))"
    and "sumValues (byCategory (apiStats dp now rs)) = Some (total (apiStats dp now rs))"
    and "total (apiStats dp now rs) = length rs"
    and "sumValues (byPriority (analyzeWithAI env rs)) = Some (totalFeedback (analyzeWithAI env rs))"
    and "sumValues (bySentiment (analyzeWithAI env rs)) = Some (totalFeedback (analyzeWithAI env rs))"
    and "sumValues (byCategory (analyzeWithAI env rs)) = Some (totalFeedback (analyzeWithAI env rs))"
    and "sumValues (byPriority (analyzeFeedback env rs)) = Some (totalFeedback (analyzeFeedback env rs))"
    and "sumValues (bySentiment (analyzeFeedback env rs)) = Some (totalFeedback (analyzeFeedback env rs))"
    and "sumValues (byCategory (analyzeFeedback env rs)) = Some (totalFeedback (analyzeFeedback env rs))"
  using assms
  by (simp_all add: apiStats_maps apiStats_counts analyzeWithAI_maps analyzeFeedback_maps bumps_sum ownKeys_def)

lemma taxonomy_keys_own:
  "ownKey ''unknown''" "ownKey ''other''" "\<forall>k\<in>set PRIORITIES. ownKey k" "\<forall>k\<in>set SENTIMENTS. ownKey k"
  by (simp_all add: ownKey_def inheritedText_def protoFunctions_def PRIORITIES_def SENTIMENTS_def)

text \<open>
  The seven-day count is the number of records whose creation time parses to an instant
  strictly after the current instant minus seven days; a record whose creation time does
  not parse adds nothing to it and one to the total.
\<close>

lemma last7Days_counts_recent:
  "last7Days (apiStats dp now rs)
     = length (filter (\<lambda>r. \<exists>t. dp (created_at r) = Some t \<and> t > now - 7 * 24 * 60 * 60 * 1000) rs)"
proof -
  have "isRecent dp (now - 604800000) = (\<lambda>r. \<exists>t. dp (created_at r) = Some t \<and> t > now - 7 * 24 * 60 * 60 * 1000)"
    by (rule ext) (auto simp: isRecent_def split: option.splits)
  then show ?thesis by (simp add: apiStats_counts)
qed

lemma undated_not_recent:
  "dp (created_at r) = None \<Longrightarrow>
     last7Days (apiStats dp now (xs @ r # ys)) = last7Days (apiStats dp now (xs @ ys))
     \<and> total (apiStats dp now (xs @ r # ys)) = Suc (total (apiStats dp now (xs @ ys)))"
  by (simp add: apiStats_counts isRecent_def)

text \<open>
  Claim C1: for every list of records, each of the three distributions sums to the total,
  every record adding one count to each. A record whose category is \<open>constructor\<close> adds
  no count: the read \<open>byCategory[c]\<close> finds the inherited function, and \<open>+ 1\<close> turns the
  property into a string. The other two distributions of the same list sum to the total.
\<close>

theorem inherited_category_breaks_sum:
  "total (apiStats knownDates 1767300000000 [constructorRecord]) = 1
   \<and> sumValues (byPriority (apiStats knownDates 1767300000000 [constructorRecord])) = Some 1
   \<and> sumValues (bySentiment (apiStats knownDates 1767300000000 [constructorRecord])) = Some 1
   \<and> byCategory (apiStats knownDates 1767300000000 [constructorRecord])
       = [(''constructor'', Text ''function Object() { [native code] }1'')]
   \<and> sumValues (byCategory (apiStats knownDates 1767300000000 [constructorRecord])) = None
   \<and> totalFeedback (analyzeWithAI (envWith None) [constructorRecord]) = 1
   \<and> sumValues (byCategory (analyzeWithAI (envWith None) [constructorRecord])) = None
   \<and> totalFeedback (analyzeFeedback (envWith None) [constructorRecord]) = 1
   \<and> sumValues (byCategory (analyzeFeedback (envWith None) [constructorRecord])) = None"
  by code_simp

text \<open>
  Claim C8: a record whose creation time does not parse is left out of the seven-day count
  but still counted in the total and in each of the three distributions. The record of
  the example, whose category is \<open>__proto__\<close>, is left out of the seven-day count and is
  counted in the total, by priority and by sentiment, but not by category: the assignment
  to \<open>__proto__\<close> changes nothing.
\<close>

theorem undated_record_missing_from_categories:
  "knownDates (created_at undatedRecord) = None
   \<and> last7Days (apiStats knownDates 1767300000000 [undatedRecord]) = 0
   \<and> total (apiStats knownDates 1767300000000 [undatedRecord]) = 1
   \<and> byPriority (apiStats knownDates 1767300000000 [undatedRecord]) = [(''P1'', Num 1)]
   \<and> bySentiment (apiStats knownDates 1767300000000 [undatedRecord]) = [(''negative'', Num 1)]
   \<and> byCategory (apiStats knownDates 1767300000000 [undatedRecord]) = []
   \<and> sumValues (byCategory (apiStats knownDates 1767300000000 [undatedRecord])) = Some 0"
  by code_simp

end
